theory Spec2Isabelle
  imports Complex_Main
begin

section \<open>Lighthouse: the spectroelectrochemistry acquisition program\<close>

text \<open>
  A shallow embedding of \<^verbatim>\<open>SpecEChemProgram.py\<close> (class \<^verbatim>\<open>MyWindow\<close>): the
  intensity calculation, the start-up checks and file set-up of \<^verbatim>\<open>start_measurement\<close>,
  the acquisition loop of \<^verbatim>\<open>run_measurement\<close> and the manual save \<^verbatim>\<open>collect_spec_now\<close>.

  Conventions of the embedding.
  \<^item> An attribute of \<^verbatim>\<open>self\<close> is a field of the record \<open>window\<close>. An attribute that
    \<^verbatim>\<open>__init__\<close> does not assign has an option type; \<open>None\<close> means that the attribute
    does not exist yet, and reading it raises \<^verbatim>\<open>AttributeError\<close>. An attribute that
    \<^verbatim>\<open>__init__\<close> sets to Python's \<^verbatim>\<open>None\<close> has an option type as well.
  \<^item> Every visible effect (message box, file operation, instrument command, sleep) is
    appended to the field \<open>trace\<close>, so that the order of effects is the order of the
    source. The text of a file is read back from the trace.
  \<^item> A raised exception is a value of \<open>py_error\<close>; a function returns the exception (if
    any) together with the window as it was when the exception left the function.
  \<^item> The instrument libraries (seabreeze, toolkitpy), the clock and Python's built-in
    \<^verbatim>\<open>float\<close>/\<^verbatim>\<open>int\<close> parsers are not part of the repository: what they return is an
    input of the model. Exceptions raised inside the instrument libraries are not modelled.
  \<^item> A Python float that is not a spectral value (a time, a potential, a current, a
    setting) is the real number it stands for. The program's arithmetic on these floats
    rounds, and is not real arithmetic: subtraction, multiplication and division on
    them are inputs of the model (the record \<open>arith\<close>), so that what is proved holds for
    the operations of the machine. Comparisons and the absolute value are exact; where an
    operand is an integer, the operation is the one on floats with the integer converted.
    Overflow to an infinity is not modelled for these floats.
  \<^item> Spectral intensities are \<open>float64\<close> values, which keep the IEEE special values
    the intensity formulas can produce. Their rounding and the sign of zero are not
    modelled.
\<close>

subsection \<open>Exceptions\<close>

datatype py_error =
    ValueError | KeyError | AttributeError | TypeError | IndexError | OSError | UnboundLocalError

subsection \<open>Floating-point arithmetic on times and settings\<close>

text \<open>The rounded operations \<^verbatim>\<open>-\<close>, \<^verbatim>\<open>*\<close> and \<^verbatim>\<open>/\<close> of Python floats.\<close>

record arith =
  fl_sub :: "real \<Rightarrow> real \<Rightarrow> real"
  fl_mul :: "real \<Rightarrow> real \<Rightarrow> real"
  fl_div :: "real \<Rightarrow> real \<Rightarrow> real"

subsection \<open>Spectral values and the numpy operations used on them\<close>

datatype float64 = Fin real | PInf | NInf | NaN

text \<open>Subtraction of two doubles (numpy \<^verbatim>\<open>-\<close> on one element).\<close>

fun fsub :: "float64 \<Rightarrow> float64 \<Rightarrow> float64" where
  "fsub NaN _ = NaN"
| "fsub _ NaN = NaN"
| "fsub (Fin x) (Fin y) = Fin (x - y)"
| "fsub (Fin x) PInf = NInf"
| "fsub (Fin x) NInf = PInf"
| "fsub PInf PInf = NaN"
| "fsub PInf _ = PInf"
| "fsub NInf NInf = NaN"
| "fsub NInf _ = NInf"

text \<open>
  Division of two doubles (numpy \<^verbatim>\<open>/\<close> on one element): a zero denominator gives an
  infinity of the sign of the numerator, and NaN for \<open>0 / 0\<close>; numpy warns and does not
  raise.
\<close>

fun fdiv :: "float64 \<Rightarrow> float64 \<Rightarrow> float64" where
  "fdiv NaN _ = NaN"
| "fdiv _ NaN = NaN"
| "fdiv (Fin x) (Fin y) =
     (if y \<noteq> 0 then Fin (x / y)
      else if 0 < x then PInf else if x < 0 then NInf else NaN)"
| "fdiv (Fin x) PInf = Fin 0"
| "fdiv (Fin x) NInf = Fin 0"
| "fdiv PInf (Fin y) = (if y < 0 then NInf else PInf)"
| "fdiv NInf (Fin y) = (if y < 0 then PInf else NInf)"
| "fdiv PInf _ = NaN"
| "fdiv NInf _ = NaN"

text \<open>Multiplication of two doubles (numpy \<^verbatim>\<open>*\<close> on one element).\<close>

fun fmul :: "float64 \<Rightarrow> float64 \<Rightarrow> float64" where
  "fmul NaN _ = NaN"
| "fmul _ NaN = NaN"
| "fmul (Fin x) (Fin y) = Fin (x * y)"
| "fmul (Fin x) PInf = (if 0 < x then PInf else if x < 0 then NInf else NaN)"
| "fmul (Fin x) NInf = (if 0 < x then NInf else if x < 0 then PInf else NaN)"
| "fmul PInf (Fin y) = (if 0 < y then PInf else if y < 0 then NInf else NaN)"
| "fmul NInf (Fin y) = (if 0 < y then NInf else if y < 0 then PInf else NaN)"
| "fmul PInf PInf = PInf"
| "fmul PInf NInf = NInf"
| "fmul NInf PInf = NInf"
| "fmul NInf NInf = PInf"

text \<open>\<^verbatim>\<open>np.log10\<close> on one element: \<open>-inf\<close> at zero, NaN below zero.\<close>

fun flog10 :: "float64 \<Rightarrow> float64" where
  "flog10 NaN = NaN"
| "flog10 PInf = PInf"
| "flog10 NInf = NaN"
| "flog10 (Fin x) = (if 0 < x then Fin (log 10 x) else if x = 0 then NInf else NaN)"

text \<open>Unary minus on one element.\<close>

fun fneg :: "float64 \<Rightarrow> float64" where
  "fneg NaN = NaN"
| "fneg PInf = NInf"
| "fneg NInf = PInf"
| "fneg (Fin x) = Fin (- x)"

text \<open>
  A one-dimensional numpy array is a list. A binary operation on two arrays works
  elementwise when the lengths agree, stretches an array of length one over the other
  (broadcasting), and raises \<^verbatim>\<open>ValueError\<close> otherwise.
\<close>

definition np_binop ::
  "(float64 \<Rightarrow> float64 \<Rightarrow> float64) \<Rightarrow> float64 list \<Rightarrow> float64 list \<Rightarrow> py_error + float64 list" where
  "np_binop f xs ys =
     (if length xs = length ys then Inr (map2 f xs ys)
      else if length xs = 1 then Inr (map (f (hd xs)) ys)
      else if length ys = 1 then Inr (map (\<lambda>x. f x (hd ys)) xs)
      else Inl ValueError)"

text \<open>
  The same with operands that may be Python's \<^verbatim>\<open>None\<close> (a spectrum that was never
  stored): arithmetic between an array and \<^verbatim>\<open>None\<close> raises \<^verbatim>\<open>TypeError\<close>.
\<close>

definition np_op ::
  "(float64 \<Rightarrow> float64 \<Rightarrow> float64) \<Rightarrow> float64 list option \<Rightarrow> float64 list option \<Rightarrow>
     py_error + float64 list" where
  "np_op f a b =
     (case a of None \<Rightarrow> Inl TypeError
      | Some xs \<Rightarrow> (case b of None \<Rightarrow> Inl TypeError | Some ys \<Rightarrow> np_binop f xs ys))"

text \<open>
  The expression
  \<^verbatim>\<open>(now_raw_intensities - self.dark_spec) / (self.reference_spec - self.dark_spec)\<close>,
  which the source writes out in the transmittance branch and again in the absorbance
  branch. Python evaluates the numerator first.
\<close>

definition np_fraction ::
  "float64 list \<Rightarrow> float64 list option \<Rightarrow> float64 list option \<Rightarrow> py_error + float64 list" where
  "np_fraction raw dark ref =
     (case np_op fsub (Some raw) dark of Inl e \<Rightarrow> Inl e
      | Inr num \<Rightarrow>
         (case np_op fsub ref dark of Inl e \<Rightarrow> Inl e
          | Inr den \<Rightarrow> np_binop fdiv num den))"

subsection \<open>Text written to files\<close>

text \<open>
  A file holds a list of atoms: a character, or a number in one of the formats the source
  uses. How Python prints the digits of a float is not modelled; what matters is where
  the numbers, the commas and the line ends are.
  \<^item> \<open>Num x\<close>: \<^verbatim>\<open>f"{x}"\<close> for a float;
  \<^item> \<open>Fix d x\<close>: \<^verbatim>\<open>f"{x:.df}"\<close>, fixed point with \<open>d\<close> decimals;
  \<^item> \<open>Dec n\<close>: \<^verbatim>\<open>f"{n:d}"\<close> for an integer.
\<close>

datatype atom = Ch char | Num float64 | Fix nat real | Dec int

definition str :: "string \<Rightarrow> atom list" where
  "str s = map Ch s"

definition nl :: atom where
  "nl = Ch (CHR 0x0A)"

definition bool_str :: "bool \<Rightarrow> string" where
  "bool_str b = (if b then ''True'' else ''False'')"

text \<open>\<^verbatim>\<open>s.replace(":", "-")\<close>\<close>

definition replace_colons :: "string \<Rightarrow> string" where
  "replace_colons s = map (\<lambda>c. if c = CHR '':'' then CHR ''-'' else c) s"

text \<open>The lines of a text: the pieces between line ends (as \<^verbatim>\<open>text.split("\n")\<close>).\<close>

fun lines_of :: "atom list \<Rightarrow> atom list list" where
  "lines_of [] = [[]]"
| "lines_of (a # as) =
     (if a = Ch (CHR 0x0A) then [] # lines_of as
      else (case lines_of as of l # ls \<Rightarrow> (a # l) # ls | [] \<Rightarrow> [[a]]))"

text \<open>The comma-separated fields of a line (as \<^verbatim>\<open>line.split(",")\<close>).\<close>

fun fields_of :: "atom list \<Rightarrow> atom list list" where
  "fields_of [] = [[]]"
| "fields_of (a # as) =
     (if a = Ch (CHR '','') then [] # fields_of as
      else (case fields_of as of l # ls \<Rightarrow> (a # l) # ls | [] \<Rightarrow> [[a]]))"

subsection \<open>Effects\<close>

text \<open>Commands sent to the potentiostat and the spectrometer.\<close>

datatype hw_cmd =
    SignalRUpDnNew "real list" "real list" "real list" real int
  | SetSignalRUpDn
  | InitSignal
  | NewRcvCurve nat
  | SetStopIMax bool real
  | SetCell bool
  | CurveRun bool
  | CurveStop
  | Capture

text \<open>
  Files are named by their path; \<open>OpenW\<close> is \<^verbatim>\<open>open(path, "w")\<close>, which creates or
  empties the file.
\<close>

datatype event =
    ShowWarning string string
  | ShowError string string
  | OpenW string
  | Write string "atom list"
  | Flush string
  | Close string
  | Hw hw_cmd
  | Sleep real
  | Print "atom list"
  | ConfigureLabel string string string
  | StartThread string

text \<open>The text of file \<open>f\<close> after a trace, and the part of it that has left the
  program's buffer for certain: what had been written when the file was last flushed or
  closed. (Python may empty a full buffer earlier; \<^verbatim>\<open>flush\<close> hands the text to the
  operating system.)\<close>

fun file_text :: "string \<Rightarrow> event list \<Rightarrow> atom list \<Rightarrow> atom list" where
  "file_text f [] acc = acc"
| "file_text f (OpenW g # es) acc = file_text f es (if g = f then [] else acc)"
| "file_text f (Write g as # es) acc = file_text f es (if g = f then acc @ as else acc)"
| "file_text f (_ # es) acc = file_text f es acc"

fun flushed_text :: "string \<Rightarrow> event list \<Rightarrow> atom list \<Rightarrow> atom list \<Rightarrow> atom list" where
  "flushed_text f [] acc disk = disk"
| "flushed_text f (OpenW g # es) acc disk =
     (if g = f then flushed_text f es [] [] else flushed_text f es acc disk)"
| "flushed_text f (Write g as # es) acc disk =
     flushed_text f es (if g = f then acc @ as else acc) disk"
| "flushed_text f (Flush g # es) acc disk =
     flushed_text f es acc (if g = f then acc else disk)"
| "flushed_text f (Close g # es) acc disk =
     flushed_text f es acc (if g = f then acc else disk)"
| "flushed_text f (_ # es) acc disk = flushed_text f es acc disk"

definition touches_file :: "event \<Rightarrow> bool" where
  "touches_file e =
     (case e of OpenW _ \<Rightarrow> True | Write _ _ \<Rightarrow> True | Flush _ \<Rightarrow> True | Close _ \<Rightarrow> True
      | _ \<Rightarrow> False)"

definition is_hw :: "event \<Rightarrow> bool" where
  "is_hw e = (case e of Hw _ \<Rightarrow> True | _ \<Rightarrow> False)"

subsection \<open>The window object\<close>

text \<open>
  One row of the potentiostat's data table. The source reads column 1 (time in s),
  column 2 (potential in V) and column 4 (current in A) of the row.
\<close>

record pstat_pt =
  pt_time :: real
  pt_vf :: real
  pt_im :: real

record window =
  running :: bool
  experiment_name :: string
  operator_name :: string
  description :: string
  save_dir :: string
  use_pstat :: bool
  use_spec :: bool
  vertex_pot1_text :: string
  vertex_pot2_text :: string
  scan_rate_text :: string
  step_size_text :: string
  num_cycles_text :: string
  has_potentiostat :: bool
  potentiostat :: "string option"
  should_draw_pstat :: bool
  enable_dark_correction :: bool
  enable_nonlinearity_correction :: bool
  spec_freq_txt :: string
  spec_freq_units :: string
  spec_intensity_type :: string
  has_spectrometer :: bool
  spectrometer :: "string option"
  reference_spec :: "float64 list option"
  dark_spec :: "float64 list option"
  integration_time_micros :: "real option"
  wavelengths :: "real list option"
  has_reference_spec :: "bool option"
  running_intensity_type :: "string option"
  outfile :: "string option"
  filename :: "string option"
  reference_filename :: "string option"
  dark_filename :: "string option"
  filename_time :: "string option"
  calc_run_time :: "real option"
  num_freq_s :: "real option"
  last_file_flush :: "real option"
  most_recent_pstat_pt :: "pstat_pt option"
  acq_curve :: "nat option"
  trace :: "event list"

text \<open>
  \<open>potentiostat\<close> and \<open>spectrometer\<close> are the instrument handles, \<open>None\<close> as in
  \<^verbatim>\<open>__init__\<close> until an instrument is connected; a handle is represented by the model name
  the instrument reports. \<open>operator_name\<close> is \<^verbatim>\<open>self.operator\<close>. The fields from
  \<open>integration_time_micros\<close> to \<open>acq_curve\<close> are the attributes that
  \<^verbatim>\<open>__init__\<close> does not assign; \<open>acq_curve\<close> is the receiving curve, represented by the
  size of its buffer.
\<close>

definition emit :: "event \<Rightarrow> window \<Rightarrow> window" where
  "emit e w = w\<lparr>trace := trace w @ [e]\<rparr>"

definition emits :: "event list \<Rightarrow> window \<Rightarrow> window" where
  "emits es w = w\<lparr>trace := trace w @ es\<rparr>"

text \<open>The window as \<^verbatim>\<open>__init__\<close> leaves it: nothing connected, both instruments ticked
  for use, the unit box on \<^verbatim>\<open>ms\<close>, the intensity box on \<^verbatim>\<open>Raw Int.\<close>, the text boxes empty.\<close>

definition init_window :: window where
  "init_window = \<lparr>
     running = False,
     experiment_name = ''Experiment'',
     operator_name = ''Graham Lab'',
     description = '''',
     save_dir = ''.'',
     use_pstat = True,
     use_spec = True,
     vertex_pot1_text = '''',
     vertex_pot2_text = '''',
     scan_rate_text = '''',
     step_size_text = '''',
     num_cycles_text = '''',
     has_potentiostat = False,
     potentiostat = None,
     should_draw_pstat = False,
     enable_dark_correction = True,
     enable_nonlinearity_correction = True,
     spec_freq_txt = '''',
     spec_freq_units = ''ms'',
     spec_intensity_type = ''Raw Int.'',
     has_spectrometer = False,
     spectrometer = None,
     reference_spec = None,
     dark_spec = None,
     integration_time_micros = None,
     wavelengths = None,
     has_reference_spec = None,
     running_intensity_type = None,
     outfile = None,
     filename = None,
     reference_filename = None,
     dark_filename = None,
     filename_time = None,
     calc_run_time = None,
     num_freq_s = None,
     last_file_flush = None,
     most_recent_pstat_pt = None,
     acq_curve = None,
     trace = []
   \<rparr>"

subsection \<open>The intensity calculation of the acquisition loop\<close>

text \<open>
  Lines 889 to 899 of \<^verbatim>\<open>run_measurement\<close>: the \<^verbatim>\<open>if\<close>/\<^verbatim>\<open>elif\<close> chain on
  \<^verbatim>\<open>self.running_intensity_type\<close>, whose last branch (absorbance) takes every string that
  is not one of the first three.
\<close>

definition calc_intensities :: "window \<Rightarrow> float64 list \<Rightarrow> py_error + float64 list" where
  "calc_intensities w now_raw_intensities =
     (case running_intensity_type w of
        None \<Rightarrow> Inl AttributeError
      | Some t \<Rightarrow>
          if t = ''Raw Int.'' then Inr now_raw_intensities
          else if t = ''Raw Int. - Ref'' then
            np_op fsub (Some now_raw_intensities) (reference_spec w)
          else if t = ''%T or %R'' then
            np_fraction now_raw_intensities (dark_spec w) (reference_spec w)
          else
            (case np_fraction now_raw_intensities (dark_spec w) (reference_spec w) of
               Inl e \<Rightarrow> Inl e
             | Inr now_intensities \<Rightarrow>
                 Inr (map (\<lambda>x. fmul (Fin (- 1)) (flog10 x)) now_intensities)))"

subsection \<open>The acquisition loop\<close>

text \<open>
  What the instruments hand to one pass of the loop: the potentiostat's most recent data
  point (which may be \<^verbatim>\<open>None\<close>: \<^verbatim>\<open>plot_pstat_curve\<close> tests for it), the spectrum the
  spectrometer captures, and the time the capture took (which the source never
  measures).
\<close>

record tick_obs =
  last_data_point :: "pstat_pt option"
  intensities :: "float64 list"
  capture_s :: real

text \<open>
  One pass of the \<^verbatim>\<open>while\<close> body, lines 880 to 915. Each call of \<^verbatim>\<open>write\<close> is one
  \<open>Write\<close> event.
\<close>

definition merged_row :: "pstat_pt \<Rightarrow> float64 list \<Rightarrow> string \<Rightarrow> event list" where
  "merged_row pt now_intensities f =
     [Write f [nl],
      Write f [Num (Fin (pt_time pt)), Ch (CHR '',''), Num (Fin (pt_vf pt)), Ch (CHR '',''),
               Num (Fin (pt_im pt))]]
     @ map (\<lambda>intensity. Write f [Ch (CHR '',''), Num intensity]) now_intensities"

definition merge_tick :: "arith \<Rightarrow> tick_obs \<Rightarrow> window \<Rightarrow> py_error option \<times> window" where
  "merge_tick ar ob w =
     (let w1 = w\<lparr>most_recent_pstat_pt := last_data_point ob\<rparr> in
      case last_data_point ob of
        None \<Rightarrow> (Some TypeError, w1)
      | Some now_pstat_pt \<Rightarrow>
          (case spectrometer w1 of
             None \<Rightarrow> (Some AttributeError, w1)
           | Some _ \<Rightarrow>
               let w2 = emit (Hw Capture) w1 in
               (case calc_intensities w2 (intensities ob) of
                  Inl e \<Rightarrow> (Some e, w2)
                | Inr now_intensities \<Rightarrow>
                    (case outfile w2 of
                       None \<Rightarrow> (Some AttributeError, w2)
                     | Some f \<Rightarrow>
                         let w3 = emits (merged_row now_pstat_pt now_intensities f) w2 in
                         (case last_file_flush w3 of
                            None \<Rightarrow> (Some AttributeError, w3)
                          | Some last_flush \<Rightarrow>
                              let w4 = (if fl_sub ar (pt_time now_pstat_pt) last_flush > 30
                                        then (emit (Flush f) w3)
                                               \<lparr>last_file_flush := Some (pt_time now_pstat_pt)\<rparr>
                                        else w3) in
                              (case num_freq_s w4 of
                                 None \<Rightarrow> (Some AttributeError, w4)
                               | Some period \<Rightarrow> (None, emit (Sleep period) w4)))))))"

text \<open>
  The loop \<^verbatim>\<open>while self.acq_curve.running():\<close> asks the driver before every pass. The
  driver's answers are the input: \<open>DriverRunning ob\<close> is the answer \<^verbatim>\<open>True\<close>, followed by
  what the instruments return during the pass; \<open>DriverStopped\<close> is the answer
  \<^verbatim>\<open>False\<close> (the scan is complete, the driver's own current limit has tripped, or
  \<^verbatim>\<open>abort_measurement\<close> has called \<^verbatim>\<open>stop\<close>). The loop has left when the result is
  \<open>Some\<close>; \<open>None\<close> means that the driver has not answered \<^verbatim>\<open>False\<close> within the answers
  given, so the loop is still going.
\<close>

datatype poll = DriverStopped | DriverRunning tick_obs

fun run_loop :: "arith \<Rightarrow> poll list \<Rightarrow> window \<Rightarrow> (py_error option \<times> window) option" where
  "run_loop ar [] w = None"
| "run_loop ar (DriverStopped # ps) w = Some (None, w)"
| "run_loop ar (DriverRunning ob # ps) w =
     (case merge_tick ar ob w of
        (Some e, w') \<Rightarrow> Some (Some e, w')
      | (None, w') \<Rightarrow> run_loop ar ps w')"

text \<open>
  Lines 865 to 877 of \<^verbatim>\<open>run_measurement\<close>, what the thread does before the loop: the
  time of the last flush is set to -100, the flags are set, the cell is switched on and
  the curve is started. (What the thread does after the loop, lines 917 to 953, is not
  part of this development.)
\<close>

definition run_measurement_setup :: "window \<Rightarrow> py_error option \<times> window" where
  "run_measurement_setup w =
     (let w1 = emit (ConfigureLabel ''lbl_cell_state'' ''Cell On'' ''green'')
                 (w\<lparr>last_file_flush := Some (- 100), running := True,
                    should_draw_pstat := True\<rparr>) in
      case potentiostat w1 of
        None \<Rightarrow> (Some AttributeError, w1)
      | Some _ \<Rightarrow>
          (case acq_curve w1 of
             None \<Rightarrow> (Some AttributeError, emit (Hw (SetCell True)) w1)
           | Some _ \<Rightarrow>
               (None,
                emits [Hw (SetCell True), Hw (CurveRun True),
                       StartThread ''plot_pstat_curve''] w1)))"

text \<open>
  The live selector while the loop runs: between two passes the user may pick another
  entry of the intensity box (\<open>Some t\<close>) or leave it alone (\<open>None\<close>). The passes are those of
  \<open>run_loop\<close>.
\<close>

fun run_loop_live ::
  "arith \<Rightarrow> (string option \<times> poll) list \<Rightarrow> window \<Rightarrow> (py_error option \<times> window) option" where
  "run_loop_live ar [] w = None"
| "run_loop_live ar ((sel, p) # ps) w =
     (let w0 = (case sel of None \<Rightarrow> w | Some t \<Rightarrow> w\<lparr>spec_intensity_type := t\<rparr>) in
      case p of
        DriverStopped \<Rightarrow> Some (None, w0)
      | DriverRunning ob \<Rightarrow>
          (case merge_tick ar ob w0 of
             (Some e, w') \<Rightarrow> Some (Some e, w')
           | (None, w') \<Rightarrow> run_loop_live ar ps w'))"

subsection \<open>The intensity kinds as the specification names them\<close>

text \<open>
  The four kinds of the specification, the entry of the intensity box that selects each,
  and the value the specification gives for one wavelength.
\<close>

datatype intensity_kind = Raw | ReferenceSubtracted | FractionalTransmittance | Absorbance

fun kind_label :: "intensity_kind \<Rightarrow> string" where
  "kind_label Raw = ''Raw Int.''"
| "kind_label ReferenceSubtracted = ''Raw Int. - Ref''"
| "kind_label FractionalTransmittance = ''%T or %R''"
| "kind_label Absorbance = ''Abs''"

fun spec_intensity :: "intensity_kind \<Rightarrow> float64 \<Rightarrow> float64 \<Rightarrow> float64 \<Rightarrow> float64" where
  "spec_intensity Raw raw dark ref = raw"
| "spec_intensity ReferenceSubtracted raw dark ref = fsub raw ref"
| "spec_intensity FractionalTransmittance raw dark ref = fdiv (fsub raw dark) (fsub ref dark)"
| "spec_intensity Absorbance raw dark ref = fneg (flog10 (fdiv (fsub raw dark) (fsub ref dark)))"

subsection \<open>Reading the files back\<close>

text \<open>
  The text of one merged record as the loop writes it: a line end, the three
  potentiostat values, then a comma and a value for every intensity.
\<close>

definition record_line :: "pstat_pt \<Rightarrow> float64 list \<Rightarrow> atom list" where
  "record_line pt now_intensities =
     [Num (Fin (pt_time pt)), Ch (CHR '',''), Num (Fin (pt_vf pt)), Ch (CHR '',''),
      Num (Fin (pt_im pt))]
     @ concat (map (\<lambda>intensity. [Ch (CHR '',''), Num intensity]) now_intensities)"

text \<open>The first and the third field of a line, when they are numbers: the elapsed time
  and the current of a record.\<close>

definition elapsed_of_line :: "atom list \<Rightarrow> real option" where
  "elapsed_of_line l =
     (case fields_of l of [Num (Fin t)] # _ \<Rightarrow> Some t | _ \<Rightarrow> None)"

definition current_of_line :: "atom list \<Rightarrow> real option" where
  "current_of_line l =
     (case fields_of l of _ # _ # [Num (Fin i)] # _ \<Rightarrow> Some i | _ \<Rightarrow> None)"

text \<open>The data rows of a file: the lines after the line \<^verbatim>\<open>>>>Begin Data<<<\<close> and the
  line of column headers that follows it.\<close>

definition data_rows_of_lines :: "atom list list \<Rightarrow> atom list list" where
  "data_rows_of_lines ls = tl (tl (dropWhile (\<lambda>l. l \<noteq> str ''>>>Begin Data<<<'') ls))"

definition data_rows :: "atom list \<Rightarrow> atom list list" where
  "data_rows txt = data_rows_of_lines (lines_of txt)"

definition recorded_times :: "string \<Rightarrow> window \<Rightarrow> real option list" where
  "recorded_times f w = map elapsed_of_line (data_rows (file_text f (trace w) []))"

definition recorded_currents :: "string \<Rightarrow> window \<Rightarrow> real option list" where
  "recorded_currents f w = map current_of_line (data_rows (file_text f (trace w) []))"

fun strictly_increasing :: "real option list \<Rightarrow> bool" where
  "strictly_increasing (Some a # Some b # ts) = (a < b \<and> strictly_increasing (Some b # ts))"
| "strictly_increasing [Some a] = True"
| "strictly_increasing [] = True"
| "strictly_increasing _ = False"

text \<open>
  The state the loop runs in after a successful start: the spectrometer handle, the
  open output file, the time of the last flush and the sleep period are there. A pass
  goes through when the potentiostat has a data point and the intensity calculation
  succeeds.
\<close>

definition loop_ready :: "window \<Rightarrow> bool" where
  "loop_ready w =
     (spectrometer w \<noteq> None \<and> outfile w \<noteq> None \<and> last_file_flush w \<noteq> None
      \<and> num_freq_s w \<noteq> None)"

definition tick_ready :: "window \<Rightarrow> tick_obs \<Rightarrow> bool" where
  "tick_ready w ob =
     (last_data_point ob \<noteq> None
      \<and> (case calc_intensities w (intensities ob) of Inl _ \<Rightarrow> False | Inr _ \<Rightarrow> True))"

text \<open>The point and the intensities of a pass that goes through.\<close>

definition tick_record :: "window \<Rightarrow> tick_obs \<Rightarrow> atom list" where
  "tick_record w ob =
     (case (last_data_point ob, calc_intensities w (intensities ob)) of
        (Some pt, Inr now_intensities) \<Rightarrow> record_line pt now_intensities
      | _ \<Rightarrow> [])"

definition tick_time :: "tick_obs \<Rightarrow> real option" where
  "tick_time ob = map_option pt_time (last_data_point ob)"

text \<open>A window in the state of the loop, for the examples: raw intensities, a merge
  period of 5 s, an output file that holds the end of its header.\<close>

definition example_window :: window where
  "example_window = init_window\<lparr>
     potentiostat := Some ''REF600'',
     spectrometer := Some ''USB2000'',
     dark_spec := Some [Fin 0],
     wavelengths := Some [400],
     running_intensity_type := Some ''Raw Int.'',
     outfile := Some ''run.csv'',
     num_freq_s := Some 5,
     last_file_flush := Some (- 100),
     acq_curve := Some 4000000,
     trace := [OpenW ''run.csv'',
               Write ''run.csv'' (str ''>>>Begin Data<<<'' @ [nl]),
               Write ''run.csv'' (str ''Time_s,Potential_V,Current_A''),
               Write ''run.csv'' [Ch (CHR '',''), Fix 1 400],
               Hw (NewRcvCurve 4000000),
               Hw (SetStopIMax True 5)]\<rparr>"

text \<open>What a pass sees when it polls the point (time, potential, current) and captures
  the one-pixel spectrum \<open>[7]\<close> in one second.\<close>

definition example_obs :: "real \<Rightarrow> real \<Rightarrow> real \<Rightarrow> tick_obs" where
  "example_obs t v i =
     \<lparr>last_data_point = Some \<lparr>pt_time = t, pt_vf = v, pt_im = i\<rparr>,
      intensities = [Fin 7], capture_s = 1\<rparr>"

text \<open>How often file \<open>f\<close> has been flushed, and what a run has left in the trace.\<close>

definition flush_count :: "string \<Rightarrow> window \<Rightarrow> nat" where
  "flush_count f w = count_list (trace w) (Flush f)"

definition is_sleep :: "event \<Rightarrow> bool" where
  "is_sleep e = (case e of Sleep _ \<Rightarrow> True | _ \<Rightarrow> False)"

text \<open>Two windows with the same set-up of the run: the fields a pass reads and does not
  write.\<close>

definition same_setup :: "window \<Rightarrow> window \<Rightarrow> bool" where
  "same_setup w w' =
     (spectrometer w' = spectrometer w \<and> outfile w' = outfile w
      \<and> num_freq_s w' = num_freq_s w
      \<and> running_intensity_type w' = running_intensity_type w
      \<and> reference_spec w' = reference_spec w \<and> dark_spec w' = dark_spec w)"

subsection \<open>Starting a measurement\<close>

text \<open>
  What \<^verbatim>\<open>start_measurement\<close> takes from outside the program: the arithmetic of floats,
  Python's \<^verbatim>\<open>float\<close> and \<^verbatim>\<open>int\<close> on the contents of a text box (\<open>None\<close> for
  \<^verbatim>\<open>ValueError\<close>), the text of \<^verbatim>\<open>datetime.datetime.now().isoformat()\<close>, and for every
  path whether \<^verbatim>\<open>open(path, "w")\<close> fails (then with the text of the \<^verbatim>\<open>OSError\<close>).
\<close>

record start_env =
  fl :: arith
  py_float :: "string \<Rightarrow> real option"
  py_int :: "string \<Rightarrow> int option"
  now_iso :: string
  open_error :: "string \<Rightarrow> string option"

text \<open>How a function is left: at its end, by \<^verbatim>\<open>return\<close> before its end, or by an
  exception.\<close>

datatype flow = Next | Return | Raise py_error

definition and_then :: "flow \<times> window \<Rightarrow> (window \<Rightarrow> flow \<times> window) \<Rightarrow> flow \<times> window" where
  "and_then r k = (case r of (Next, w) \<Rightarrow> k w | _ \<Rightarrow> r)"

text \<open>
  A sequence of \<^verbatim>\<open>write\<close> calls on one file. The argument of each call is computed
  just before the call and may raise; an exception ends the sequence, and what has been
  written stays written.
\<close>

fun write_all :: "string \<Rightarrow> (py_error + atom list) list \<Rightarrow> window \<Rightarrow> flow \<times> window" where
  "write_all f [] w = (Next, w)"
| "write_all f (Inl e # rest) w = (Raise e, w)"
| "write_all f (Inr as # rest) w = write_all f rest (emit (Write f as) w)"

text \<open>The values of the run, as lines 670 to 697 compute them.\<close>

record run_params =
  v1_num :: real
  v2_num :: real
  scanrate_num :: real
  cycles_num :: int
  sample_period :: real
  collection_time_ms :: real

text \<open>Lines 670 to 678: the five conversions of the \<^verbatim>\<open>try\<close> block, in their order.\<close>

definition parse_pstat :: "start_env \<Rightarrow> window \<Rightarrow> (real \<times> real \<times> real \<times> int \<times> real) option" where
  "parse_pstat env w =
     (case py_float env (vertex_pot1_text w) of None \<Rightarrow> None
      | Some v1 \<Rightarrow>
     (case py_float env (vertex_pot2_text w) of None \<Rightarrow> None
      | Some v2 \<Rightarrow>
     (case py_float env (scan_rate_text w) of None \<Rightarrow> None
      | Some scanrate \<Rightarrow>
     (case py_int env (num_cycles_text w) of None \<Rightarrow> None
      | Some cycles \<Rightarrow>
     (case py_float env (step_size_text w) of None \<Rightarrow> None
      | Some period \<Rightarrow> Some (v1, v2, scanrate, cycles, period))))))"

text \<open>Lines 689 to 697: the collection time in ms. The chain has no \<^verbatim>\<open>else\<close>: with
  another unit the variable stays unbound.\<close>

definition collection_ms :: "arith \<Rightarrow> string \<Rightarrow> real \<Rightarrow> real option" where
  "collection_ms ar unit collection_time_num =
     (if unit = ''ms'' then Some (fl_mul ar collection_time_num 1)
      else if unit = ''s'' then Some (fl_mul ar collection_time_num 1000)
      else if unit = ''min'' then Some (fl_mul ar (fl_mul ar collection_time_num 60) 1000)
      else if unit = ''hr'' then Some (fl_mul ar (fl_mul ar collection_time_num 3600) 1000)
      else None)"

text \<open>
  Lines 669 to 715, the checks. They assign no attribute and have no effect but the
  message box of the check that fails, so their result is the message (\<open>Rejected\<close>),
  an exception (\<open>Crashed\<close>) or the values of the run (\<open>Accepted\<close>).
\<close>

datatype check_result = Rejected string string | Crashed py_error | Accepted run_params

definition check_connected :: "window \<Rightarrow> run_params \<Rightarrow> check_result" where
  "check_connected w p =
     (if use_pstat w \<and> has_potentiostat w = False then
        Rejected ''Potentiostat Not Connected''
          ''You are using the potentiostat for this measurement, but it does not appear to be connected.''
      else if use_spec w \<and> has_spectrometer w = False then
        Rejected ''Spectrometer Not Connected''
          ''You are using the spectrometer for this measurement, but it does not appear to be connected.''
      else Accepted p)"

definition check_settings :: "start_env \<Rightarrow> window \<Rightarrow> check_result" where
  "check_settings env w =
     (case parse_pstat env w of
        None \<Rightarrow>
          Rejected ''Value Error''
            ''One of the PStat parameters does not appear to be a valid number.''
      | Some (v1, v2, scanrate, cycles, period) \<Rightarrow>
     (case integration_time_micros w of
        None \<Rightarrow> Crashed AttributeError
      | Some micros \<Rightarrow>
     (case py_float env (spec_freq_txt w) of
        None \<Rightarrow>
          Rejected ''Value Error''
            ''Could not convert contents of collection frequency box into a number!''
      | Some collection_time_num \<Rightarrow>
     (case collection_ms (fl env) (spec_freq_units w) collection_time_num of
        None \<Rightarrow> Crashed UnboundLocalError
      | Some ms \<Rightarrow>
          let p = \<lparr>v1_num = v1, v2_num = v2, scanrate_num = scanrate, cycles_num = cycles,
                   sample_period = period, collection_time_ms = ms\<rparr> in
          if ms \<le> fl_div (fl env) micros 1000 then
            Rejected ''Collection Frequency Error''
              ''Minimum time between collecting spectra must be larger than integration time!''
          else if spec_intensity_type w \<noteq> ''Raw Int.'' then
            (case has_reference_spec w of
               None \<Rightarrow> Crashed AttributeError
             | Some False \<Rightarrow>
                 Rejected ''Error saving file''
                   ''Chosen intensity type requires a reference spectrum''
             | Some True \<Rightarrow> check_connected w p)
          else check_connected w p))))"

text \<open>Lines 720 to 723: the dictionary from the entries of the intensity box to the
  words used in file names.\<close>

definition filename_intensity_type :: "string \<Rightarrow> string option" where
  "filename_intensity_type =
     map_of [(''Raw Int.'', ''Raw_Intensity''),
             (''Raw Int. - Ref'', ''Reference_Sub_Intensity''),
             (''%T or %R'', ''Transmittance''),
             (''Abs'', ''Abs'')]"

text \<open>A file name of the run: the name is put together, its colons are replaced, and
  the directory is put in front.\<close>

definition run_filename :: "start_env \<Rightarrow> window \<Rightarrow> string \<Rightarrow> string" where
  "run_filename env w ending =
     save_dir w @ ''/'' @ replace_colons (experiment_name w @ ''_'' @ now_iso env @ ending)"

text \<open>Lines 719 to 740: the intensity kind of the run is fixed and the output file is
  opened.\<close>

definition open_outfile :: "start_env \<Rightarrow> window \<Rightarrow> flow \<times> window" where
  "open_outfile env w =
     (let w1 = w\<lparr>running_intensity_type := Some (spec_intensity_type w)\<rparr> in
      case filename_intensity_type (spec_intensity_type w) of
        None \<Rightarrow> (Raise KeyError, w1)
      | Some intensity_type_text \<Rightarrow>
          let w2 = w1\<lparr>filename_time := Some (now_iso env)\<rparr>;
              name = run_filename env w (''_'' @ intensity_type_text @ ''.csv'') in
          (case open_error env name of
             Some strerror \<Rightarrow> (Return, emit (ShowError ''Error opening file'' strerror) w2)
           | None \<Rightarrow> (Next, (emit (OpenW name) w2)\<lparr>outfile := Some name, filename := Some name\<rparr>)))"

text \<open>
  Lines 749 to 766 and 774 to 790: the file of a baseline spectrum. The source has the
  same code twice, for the reference and for the dark spectrum, with another first line,
  another file name and another spectrum. The \<^verbatim>\<open>with\<close> statement closes the file when an
  exception leaves it.
\<close>

definition spectrometer_lines :: "arith \<Rightarrow> window \<Rightarrow> (py_error + atom list) list" where
  "spectrometer_lines ar w =
     [case spectrometer w of
        None \<Rightarrow> Inl AttributeError
      | Some model \<Rightarrow> Inr (str ''Spectrometer model: '' @ str model @ [nl]),
      case integration_time_micros w of
        None \<Rightarrow> Inl AttributeError
      | Some micros \<Rightarrow>
          Inr (str ''Integration time (ms): '' @ [Fix 0 (fl_div ar micros 1000)] @ [nl]),
      Inr (str ''Electric dark correction enabled: ''
             @ str (bool_str (enable_dark_correction w)) @ [nl]),
      Inr (str ''Nonlinearity correction enabled: ''
             @ str (bool_str (enable_nonlinearity_correction w)) @ [nl])]"

definition baseline_header :: "string \<Rightarrow> start_env \<Rightarrow> window \<Rightarrow> (py_error + atom list) list" where
  "baseline_header first_line env w =
     [Inr (str first_line @ [nl]),
      Inr (str ''For experiment: '' @ str (experiment_name w) @ [nl]),
      Inr (str ''Experiment began at: '' @ str (now_iso env) @ [nl])]
     @ spectrometer_lines (fl env) w
     @ [case wavelengths w of
          None \<Rightarrow> Inl AttributeError
        | Some ws \<Rightarrow> Inr (str ''Number of data points: '' @ [Dec (int (length ws))] @ [nl, nl]),
        Inr (str ''>>>Begin Data<<<'' @ [nl]),
        Inr (str ''Wavelength_nm,Intensity'')]"

definition baseline_rows :: "window \<Rightarrow> float64 list option \<Rightarrow> (py_error + atom list) list" where
  "baseline_rows w spec =
     (case wavelengths w of
        None \<Rightarrow> [Inl AttributeError]
      | Some ws \<Rightarrow>
          map (\<lambda>i. case spec of
                      None \<Rightarrow> Inl TypeError
                    | Some xs \<Rightarrow>
                        if i < length xs
                        then Inr [Num (Fin (ws ! i)), Ch (CHR '',''), Num (xs ! i), nl]
                        else Inl IndexError)
              [0..<length ws])"

definition write_baseline ::
  "start_env \<Rightarrow> string \<Rightarrow> string \<Rightarrow> float64 list option \<Rightarrow> window \<Rightarrow> flow \<times> window" where
  "write_baseline env first_line ending spec w =
     (let name = run_filename env w ending in
      case open_error env name of
        Some _ \<Rightarrow> (Raise OSError, w)
      | None \<Rightarrow>
          (case write_all name (baseline_header first_line env w @ baseline_rows w spec)
                  (emit (OpenW name) w) of
             (Next, w') \<Rightarrow> (Next, emit (Close name) w')
           | (r, w') \<Rightarrow> (r, emit (Close name) w')))"

text \<open>Lines 745 to 768.\<close>

definition write_reference_file :: "start_env \<Rightarrow> window \<Rightarrow> flow \<times> window" where
  "write_reference_file env w =
     (case has_reference_spec w of
        None \<Rightarrow> (Raise AttributeError, w)
      | Some False \<Rightarrow> (Next, w)
      | Some True \<Rightarrow>
          (case write_baseline env
                  ''Ocean Optics spectrometer reference spectrum generated by Lighthouse''
                  ''_REFERENCE_SPECTRUM.csv'' (reference_spec w) w of
             (Next, w') \<Rightarrow>
               (Next, w'\<lparr>reference_filename :=
                            Some (run_filename env w ''_REFERENCE_SPECTRUM.csv'')\<rparr>)
           | r \<Rightarrow> r))"

text \<open>Lines 770 to 792.\<close>

definition write_dark_file :: "start_env \<Rightarrow> window \<Rightarrow> flow \<times> window" where
  "write_dark_file env w =
     (case write_baseline env
             ''Ocean Optics spectrometer dark spectrum generated by Lighthouse''
             ''_DARK_SPECTRUM.csv'' (dark_spec w) w of
        (Next, w') \<Rightarrow>
          (Next, w'\<lparr>dark_filename := Some (run_filename env w ''_DARK_SPECTRUM.csv'')\<rparr>)
      | r \<Rightarrow> r)"

text \<open>Lines 794 to 824: the header of the output file.\<close>

definition main_header :: "start_env \<Rightarrow> window \<Rightarrow> (py_error + atom list) list" where
  "main_header env w =
     [Inr (str ''Spectroelectrochemistry data file generated by Lighthouse'' @ [nl]),
      Inr (str ''For experiment: '' @ str (experiment_name w) @ [nl]),
      Inr (str ''Operator: '' @ str (operator_name w) @ [nl]),
      Inr (str ''Description: '' @ str (description w) @ [nl]),
      Inr (str ''Experiment began at: '' @ str (now_iso env) @ [nl]),
      Inr (str ''Use Potentiostat?: '' @ str (bool_str (use_pstat w)) @ [nl])]
     @ (if use_pstat w then
          [case potentiostat w of
             None \<Rightarrow> Inl AttributeError
           | Some model \<Rightarrow> Inr (str ''Potentiostat Model Number: '' @ str model @ [nl]),
           Inr (str ''Vertex Potential 1 (V): '' @ str (vertex_pot1_text w) @ [nl]),
           Inr (str ''Vertex Potential 2 (V): '' @ str (vertex_pot2_text w) @ [nl]),
           Inr (str ''Scan Rate (V/s): '' @ str (scan_rate_text w) @ [nl]),
           Inr (str ''Step Size (V): '' @ str (step_size_text w) @ [nl]),
           Inr (str ''# Cycles: '' @ str (num_cycles_text w) @ [nl])]
        else [])
     @ [Inr (str ''Use Spectrometer?: '' @ str (bool_str (use_spec w)) @ [nl])]
     @ (if use_spec w then
          spectrometer_lines (fl env) w
          @ [case running_intensity_type w of
               None \<Rightarrow> Inl AttributeError
             | Some t \<Rightarrow> Inr (str ''Intensity Type: '' @ str t @ [nl]),
             case wavelengths w of
               None \<Rightarrow> Inl AttributeError
             | Some ws \<Rightarrow>
                 Inr (str ''Number of distinct wavelengths: '' @ [Dec (int (length ws))] @ [nl])]
        else [])
     @ [Inr (str ''Column headers to the right of potentiostat data are the spectrometer wavelengths in nm.''
               @ [nl, nl]),
        Inr (str ''>>>Begin Data<<<'' @ [nl]),
        Inr (str ''Time_s,Potential_V,Current_A'')]
     @ (case wavelengths w of
          None \<Rightarrow> [Inl AttributeError]
        | Some ws \<Rightarrow> map (\<lambda>wavelength. Inr [Ch (CHR '',''), Fix 1 wavelength]) ws)"

definition write_main_header :: "start_env \<Rightarrow> window \<Rightarrow> flow \<times> window" where
  "write_main_header env w =
     (case outfile w of
        None \<Rightarrow> (Raise AttributeError, w)
      | Some f \<Rightarrow> write_all f (main_header env w) w)"

text \<open>Lines 826 to 850: the signal and the receiving curve, with the driver's own stop
  at 5 A.\<close>

definition pstat_commands :: "run_params \<Rightarrow> event list" where
  "pstat_commands p =
     [Hw (SignalRUpDnNew [v1_num p, v1_num p, v2_num p, v2_num p]
            [scanrate_num p, scanrate_num p, scanrate_num p] [0, 0, 0]
            (sample_period p) (cycles_num p)),
      Hw SetSignalRUpDn, Hw InitSignal,
      Hw (NewRcvCurve 4000000), Hw (SetStopIMax True 5)]"

definition setup_pstat :: "run_params \<Rightarrow> window \<Rightarrow> flow \<times> window" where
  "setup_pstat p w =
     (case potentiostat w of
        None \<Rightarrow> (Raise AttributeError, w)
      | Some _ \<Rightarrow> (Next, (emits (pstat_commands p) w)\<lparr>acq_curve := Some 4000000\<rparr>))"

text \<open>
  Lines 852 to 861. The clock value \<^verbatim>\<open>time_start\<close> is left out. The run time is
  \<^verbatim>\<open>np.abs(v2_num-v1_num) / scanrate_num * 2 * cycles_num\<close>, computed from left to right.
\<close>

definition begin_run :: "arith \<Rightarrow> run_params \<Rightarrow> window \<Rightarrow> flow \<times> window" where
  "begin_run ar p w =
     (let run_time = fl_mul ar
                       (fl_mul ar (fl_div ar \<bar>fl_sub ar (v2_num p) (v1_num p)\<bar> (scanrate_num p)) 2)
                       (of_int (cycles_num p)) in
      (Next,
       emit (StartThread ''run_measurement'')
         ((emits [ConfigureLabel ''lbl_running'' ''Running...'' ''green'',
                  Print (str ''Estimated experiment time: '' @ [Fix 2 (fl_div ar run_time 60)]
                           @ str '' minutes.'')] w)
            \<lparr>calc_run_time := Some run_time,
             num_freq_s := Some (fl_div ar (collection_time_ms p) 1000)\<rparr>)))"

definition commit_start :: "start_env \<Rightarrow> run_params \<Rightarrow> window \<Rightarrow> flow \<times> window" where
  "commit_start env p w =
     and_then (open_outfile env w) (\<lambda>w.
     and_then (write_reference_file env w) (\<lambda>w.
     and_then (write_dark_file env w) (\<lambda>w.
     and_then (write_main_header env w) (\<lambda>w.
     and_then (setup_pstat p w) (begin_run (fl env) p)))))"

definition start_measurement :: "start_env \<Rightarrow> window \<Rightarrow> flow \<times> window" where
  "start_measurement env w =
     (if running w then (Return, w)
      else
        (case check_settings env w of
           Rejected title message \<Rightarrow> (Return, emit (ShowWarning title message) w)
         | Crashed e \<Rightarrow> (Raise e, w)
         | Accepted p \<Rightarrow> commit_start env p w))"

subsection \<open>Saving one spectrum by hand\<close>









text \<open>Lines 545 to 548; \<open>now_intensities\<close> is what the spectrometer returns.\<close>

definition store_reference_spectrum :: "float64 list \<Rightarrow> window \<Rightarrow> py_error option \<times> window" where
  "store_reference_spectrum now_intensities w =
     (if has_spectrometer w then
        (case spectrometer w of
           None \<Rightarrow> (Some AttributeError, w)
         | Some _ \<Rightarrow>
             (None,
              (emit (Hw Capture) w)\<lparr>reference_spec := Some now_intensities,
                                     has_reference_spec := Some True\<rparr>))
      else (None, w))"

subsection \<open>Examples of settings\<close>

text \<open>
  For the examples: arithmetic without rounding, which is what the machine computes on
  the numbers of the examples (small integers and 0.5: every operand and every result
  is a double); the part of Python's \<^verbatim>\<open>float\<close> and \<^verbatim>\<open>int\<close> that the examples need; a time
  of day; and a disk on which every file can be opened.
\<close>

definition exact_arith :: arith where
  "exact_arith = \<lparr>fl_sub = (-), fl_mul = (*), fl_div = (/)\<rparr>"

definition example_env :: start_env where
  "example_env = \<lparr>
     fl = exact_arith,
     py_float = (\<lambda>s. if s = ''0.0'' then Some 0
                      else if s = ''1.0'' then Some 1
                      else if s = ''0.5'' then Some (1 / 2)
                      else if s = ''5'' then Some 5
                      else None),
     py_int = (\<lambda>s. if s = ''3'' then Some 3 else None),
     now_iso = ''2026-02-16T10:00:00'',
     open_error = (\<lambda>path. None)\<rparr>"

text \<open>
  The window after the user has typed a scan (0 V to 5 V at 0.5 V/s, three cycles, a
  sample every 0.5 s, a spectrum every 5 s) and has connected the potentiostat, but not
  the spectrometer.
\<close>

definition typed_window :: window where
  "typed_window = init_window\<lparr>
     vertex_pot1_text := ''0.0'',
     vertex_pot2_text := ''5'',
     scan_rate_text := ''0.5'',
     num_cycles_text := ''3'',
     step_size_text := ''0.5'',
     spec_freq_txt := ''5'',
     spec_freq_units := ''s'',
     has_potentiostat := True,
     potentiostat := Some ''REF600''\<rparr>"

text \<open>
  The same window once \<^verbatim>\<open>connect_spectrometer\<close> has found a spectrometer with two pixels
  and a shortest integration time of 50 ms (lines 418 to 434).
\<close>

definition connected_window :: window where
  "connected_window = typed_window\<lparr>
     has_spectrometer := True,
     spectrometer := Some ''USB2000'',
     integration_time_micros := Some 50000,
     wavelengths := Some [400, 401],
     has_reference_spec := Some False,
     dark_spec := Some [Fin 0, Fin 0]\<rparr>"

text \<open>The lines of a file from the line \<^verbatim>\<open>>>>Begin Data<<<\<close> on, that line left out.\<close>

definition after_sentinel :: "atom list \<Rightarrow> atom list list" where
  "after_sentinel txt = tl (dropWhile (\<lambda>l. l \<noteq> str ''>>>Begin Data<<<'') (lines_of txt))"

text \<open>The window when that measurement has been started, and when the thread of
  \<^verbatim>\<open>run_measurement\<close> has reached its loop.\<close>

definition started_window :: window where
  "started_window = snd (start_measurement example_env connected_window)"

definition running_window :: window where
  "running_window = snd (run_measurement_setup started_window)"

definition example_outfile :: string where
  "example_outfile = ''./Experiment_2026-02-16T10-00-00_Raw_Intensity.csv''"

text \<open>What a pass of that measurement sees when it polls the point (time, potential,
  current) and captures the spectrum \<open>[7, 8]\<close> in one second.\<close>

definition example_obs2 :: "real \<Rightarrow> real \<Rightarrow> real \<Rightarrow> tick_obs" where
  "example_obs2 t v i =
     \<lparr>last_data_point = Some \<lparr>pt_time = t, pt_vf = v, pt_im = i\<rparr>,
      intensities = [Fin 7, Fin 8], capture_s = 1\<rparr>"

subsection \<open>The driver's side of the current limit\<close>

text \<open>
  The driver (toolkitpy) is not part of the source. What the source says about it: the
  receiving curve is told to \<^verbatim>\<open>set_stop_i_max(True, 5)\<close>, commented
  ``automatically stop if current exceeds 5 A'' (line 850); the curve takes up data
  points on its own, at the sample period (lines 841 to 845), and holds ``all the
  potentiostat data points, even the ones in between the ones in the CSV file'' (lines
  928 to 930). The following puts these sentences into a function from what the driver
  does to the answers the loop gets. One step is the time from one test of
  \<^verbatim>\<open>running()\<close> to the next: the curve takes up the points \<open>acquired\<close> (oldest first). If
  one of them is beyond the limit the curve has stopped, and the test answers
  \<^verbatim>\<open>False\<close>; otherwise the pass polls the latest point of the curve. When the steps are
  used up the scan is complete.
\<close>

record driver_step =
  acquired :: "pstat_pt list"
  spectrum :: "float64 list"
  took :: real

definition beyond_i_max :: "real \<Rightarrow> pstat_pt \<Rightarrow> bool" where
  "beyond_i_max i_max p = (i_max < \<bar>pt_im p\<bar>)"

fun driver_polls :: "real \<Rightarrow> pstat_pt option \<Rightarrow> driver_step list \<Rightarrow> poll list" where
  "driver_polls i_max latest [] = [DriverStopped]"
| "driver_polls i_max latest (s # ss) =
     (if list_ex (beyond_i_max i_max) (acquired s) then [DriverStopped]
      else
        (let latest' = (if acquired s = [] then latest else Some (last (acquired s))) in
         DriverRunning \<lparr>last_data_point = latest', intensities = spectrum s,
                         capture_s = took s\<rparr>
         # driver_polls i_max latest' ss))"

text \<open>
  Two steps of the example: before the first test the curve has its first point, at
  0 s with no current; before the second it has taken up two more points, the second of
  them with 6 A.
\<close>

definition example_steps :: "driver_step list" where
  "example_steps =
     [\<lparr>acquired = [\<lparr>pt_time = 0, pt_vf = 0, pt_im = 0\<rparr>],
       spectrum = [Fin 7, Fin 8], took = 1\<rparr>,
      \<lparr>acquired = [\<lparr>pt_time = 1 / 2, pt_vf = 1 / 4, pt_im = 1\<rparr>,
                   \<lparr>pt_time = 1, pt_vf = 1 / 2, pt_im = 6\<rparr>],
       spectrum = [Fin 7, Fin 8], took = 1\<rparr>]"

section \<open>Properties\<close>

subsection \<open>The intensity calculation\<close>

lemma fmul_minus_one: "fmul (Fin (- 1)) x = fneg x"
  by (cases x) simp_all

lemma map2_nth: "length xs = length ys \<Longrightarrow> map2 f xs ys = map (\<lambda>i. f (xs ! i) (ys ! i)) [0..<length xs]"
  by (rule nth_equalityI) simp_all

lemma np_binop_same_length:
  "length xs = length ys \<Longrightarrow> np_binop f xs ys = Inr (map (\<lambda>i. f (xs ! i) (ys ! i)) [0..<length xs])"
  by (simp add: np_binop_def map2_nth)

lemma np_fraction_same_length:
  assumes "length raw = length dark" and "length ref = length dark"
  shows "np_fraction raw (Some dark) (Some ref) =
           Inr (map (\<lambda>i. fdiv (fsub (raw ! i) (dark ! i)) (fsub (ref ! i) (dark ! i))) [0..<length raw])"
  using assms by (simp add: np_fraction_def np_op_def np_binop_same_length)

text \<open>
  C2. With a dark spectrum and a stored reference spectrum of the length of the raw
  sample, the intensities the loop records are, wavelength by wavelength, the value the
  specification gives for the selected kind: the raw value, raw minus reference,
  (raw minus dark) over (reference minus dark), or minus the decimal logarithm of that
  quotient. The values are those of the floating-point operations themselves, special
  values included: nothing replaces an infinity or a NaN.
\<close>

theorem calc_intensities_elementwise:
  assumes "length raw = length dark" and "length ref = length dark"
    and "dark_spec w = Some dark" and "reference_spec w = Some ref"
    and "running_intensity_type w = Some (kind_label k)"
  shows "calc_intensities w raw =
           Inr (map (\<lambda>i. spec_intensity k (raw ! i) (dark ! i) (ref ! i)) [0..<length raw])"
proof (cases k)
  case Raw
  have "map (\<lambda>i. raw ! i) [0..<length raw] = raw"
    by (rule map_nth)
  with Raw assms show ?thesis
    by (simp add: calc_intensities_def)
next
  case ReferenceSubtracted
  with assms show ?thesis
    by (simp add: calc_intensities_def np_op_def np_binop_same_length)
next
  case FractionalTransmittance
  with assms show ?thesis
    by (simp add: calc_intensities_def np_fraction_same_length)
next
  case Absorbance
  with assms show ?thesis
    by (simp add: calc_intensities_def np_fraction_same_length fmul_minus_one comp_def)
qed

text \<open>
  An instance: absorbance at three wavelengths. At the second the reference equals the
  dark value and the quotient is \<open>+inf\<close>, whose absorbance is \<open>-inf\<close>; at the third the raw
  value equals the dark value too, the quotient is \<open>0/0\<close> and the absorbance NaN.
\<close>

theorem calc_intensities_elementwise_witness:
  "calc_intensities
     (init_window\<lparr>dark_spec := Some [Fin 1, Fin 1, Fin 1],
                  reference_spec := Some [Fin 3, Fin 1, Fin 1],
                  running_intensity_type := Some ''Abs''\<rparr>)
     [Fin 3, Fin 2, Fin 1]
   = Inr [Fin 0, NInf, NaN]"
  using calc_intensities_elementwise
          [of "[Fin 3, Fin 2, Fin 1]" "[Fin 1, Fin 1, Fin 1]" "[Fin 3, Fin 1, Fin 1]"
              "init_window\<lparr>dark_spec := Some [Fin 1, Fin 1, Fin 1],
                  reference_spec := Some [Fin 3, Fin 1, Fin 1],
                  running_intensity_type := Some ''Abs''\<rparr>" Absorbance]
  by (simp add: upt_rec)

subsection \<open>Lines and fields\<close>

lemma lines_of_not_Nil [simp]: "lines_of xs \<noteq> []"
  by (induction xs) (auto split: list.splits)

lemma fields_of_not_Nil [simp]: "fields_of xs \<noteq> []"
  by (induction xs) (auto split: list.splits)

lemma lines_of_append:
  "lines_of (xs @ ys) = butlast (lines_of xs) @ (last (lines_of xs) @ hd (lines_of ys)) # tl (lines_of ys)"
proof (induction xs)
  case Nil
  then show ?case by simp
next
  case (Cons a xs)
  obtain l ls where l: "lines_of xs = l # ls"
    by (cases "lines_of xs") simp_all
  obtain m ms where m: "lines_of (xs @ ys) = m # ms"
    by (cases "lines_of (xs @ ys)") simp_all
  from Cons l m show ?case
    by (cases ls) (auto split: list.splits)
qed

lemma lines_of_append_newline:
  "lines_of (xs @ Ch (CHR 0x0A) # ys) = lines_of xs @ lines_of ys"
proof -
  have "lines_of (xs @ Ch (CHR 0x0A) # ys)
          = butlast (lines_of xs) @ (last (lines_of xs) @ []) # lines_of ys"
    by (subst lines_of_append) simp
  then show ?thesis by simp
qed

lemma lines_of_no_newline: "Ch (CHR 0x0A) \<notin> set xs \<Longrightarrow> lines_of xs = [xs]"
  by (induction xs) auto

lemma fields_of_no_comma: "Ch (CHR '','') \<notin> set xs \<Longrightarrow> fields_of xs = [xs]"
  by (induction xs) auto

lemma fields_of_intensities:
  "fields_of (x # concat (map (\<lambda>intensity. [Ch (CHR '',''), Num intensity]) ys))
     = (if x = Ch (CHR '','') then [[], []] else [[x]]) @ map (\<lambda>y. [Num y]) ys"
proof (induction ys arbitrary: x)
  case Nil
  then show ?case by simp
next
  case (Cons y ys)
  have "fields_of (Num y # concat (map (\<lambda>intensity. [Ch (CHR '',''), Num intensity]) ys))
          = [Num y] # map (\<lambda>y. [Num y]) ys"
    using Cons [of "Num y"] by simp
  then show ?case by simp
qed

lemma fields_of_record_line:
  "fields_of (record_line pt ys)
     = [Num (Fin (pt_time pt))] # [Num (Fin (pt_vf pt))] # [Num (Fin (pt_im pt))]
       # map (\<lambda>y. [Num y]) ys"
  using fields_of_intensities [of "Num (Fin (pt_im pt))" ys]
  by (simp add: record_line_def)

lemma elapsed_of_record_line: "elapsed_of_line (record_line pt ys) = Some (pt_time pt)"
  by (simp add: elapsed_of_line_def fields_of_record_line)

lemma current_of_record_line: "current_of_line (record_line pt ys) = Some (pt_im pt)"
  by (simp add: current_of_line_def fields_of_record_line)

lemma record_line_no_newline: "Ch (CHR 0x0A) \<notin> set (record_line pt ys)"
  by (auto simp: record_line_def)

subsection \<open>Files read back from the trace\<close>

lemma file_text_append: "file_text f (es1 @ es2) acc = file_text f es2 (file_text f es1 acc)"
  by (induction f es1 acc rule: file_text.induct) simp_all

lemma file_text_writes:
  "file_text g (map (\<lambda>x. Write f (h x)) xs) acc = (if f = g then acc @ concat (map h xs) else acc)"
  by (induction xs arbitrary: acc) simp_all

lemma file_text_merged_row:
  "file_text f (merged_row pt ys f) acc = acc @ nl # record_line pt ys"
  by (simp add: merged_row_def record_line_def file_text_append file_text_writes)

subsection \<open>One pass of the loop\<close>

lemma calc_intensities_cong:
  "running_intensity_type w' = running_intensity_type w \<Longrightarrow> reference_spec w' = reference_spec w
     \<Longrightarrow> dark_spec w' = dark_spec w \<Longrightarrow> calc_intensities w' raw = calc_intensities w raw"
  by (simp add: calc_intensities_def cong: option.case_cong if_cong sum.case_cong)

lemma calc_intensities_same_setup:
  "same_setup w w' \<Longrightarrow> calc_intensities w' raw = calc_intensities w raw"
  by (rule calc_intensities_cong) (simp_all add: same_setup_def)

lemma merge_tick_ok:
  assumes "last_data_point ob = Some pt" and "spectrometer w = Some m"
    and "calc_intensities w (intensities ob) = Inr ys" and "outfile w = Some f"
    and "last_file_flush w = Some lf" and "num_freq_s w = Some d"
  shows "merge_tick ar ob w =
           (None, w\<lparr>most_recent_pstat_pt := Some pt,
                    last_file_flush := Some (if fl_sub ar (pt_time pt) lf > 30 then pt_time pt else lf),
                    trace := trace w @ Hw Capture # merged_row pt ys f
                               @ (if fl_sub ar (pt_time pt) lf > 30 then [Flush f] else []) @ [Sleep d]\<rparr>)"
proof -
  have c: "calc_intensities (emit (Hw Capture) (w\<lparr>most_recent_pstat_pt := Some pt\<rparr>)) (intensities ob) = Inr ys"
  proof -
    have "calc_intensities (emit (Hw Capture) (w\<lparr>most_recent_pstat_pt := Some pt\<rparr>)) (intensities ob)
            = calc_intensities w (intensities ob)"
      by (rule calc_intensities_cong) (simp_all add: emit_def)
    with assms(3) show ?thesis by simp
  qed
  show ?thesis
  proof (cases "fl_sub ar (pt_time pt) lf > 30")
    case True
    then show ?thesis
      unfolding merge_tick_def Let_def
      by (simp add: assms c) (simp add: emit_def emits_def assms)
  next
    case False
    then show ?thesis
      unfolding merge_tick_def Let_def
      by (simp add: assms c) (simp add: emit_def emits_def assms)
  qed
qed

lemma tick_ready_same_setup: "same_setup w w' \<Longrightarrow> tick_ready w' ob = tick_ready w ob"
  using calc_intensities_same_setup [of w w' "intensities ob"] by (simp add: tick_ready_def)

lemma tick_record_same_setup: "same_setup w w' \<Longrightarrow> tick_record w' ob = tick_record w ob"
  using calc_intensities_same_setup [of w w' "intensities ob"] by (simp add: tick_record_def)

lemma merge_tick_ready:
  assumes "loop_ready w" and "outfile w = Some f" and "tick_ready w ob"
  shows "\<exists>w'. merge_tick ar ob w = (None, w') \<and> same_setup w w' \<and> loop_ready w'
           \<and> file_text f (trace w') [] = file_text f (trace w) [] @ nl # tick_record w ob"
proof -
  from assms(3) obtain pt ys where pt: "last_data_point ob = Some pt"
    and ys: "calc_intensities w (intensities ob) = Inr ys"
    by (auto simp: tick_ready_def split: sum.splits)
  from assms(1) obtain m lf d where r: "spectrometer w = Some m" "last_file_flush w = Some lf"
    "num_freq_s w = Some d"
    by (auto simp: loop_ready_def)
  note mt = merge_tick_ok [OF pt r(1) ys assms(2) r(2) r(3)]
  have "file_text f (trace w @ Hw Capture # merged_row pt ys f
                       @ (if fl_sub ar (pt_time pt) lf > 30 then [Flush f] else []) @ [Sleep d]) []
          = file_text f (trace w) [] @ nl # record_line pt ys"
    by (simp add: file_text_append file_text_merged_row)
  with mt pt ys r assms(2) show ?thesis
    by (simp add: same_setup_def loop_ready_def tick_record_def)
qed

subsection \<open>The whole loop\<close>

lemma run_loop_ready:
  assumes "loop_ready w" and "outfile w = Some f" and "\<forall>ob\<in>set obs. tick_ready w ob"
  shows "\<exists>w'. run_loop ar (map DriverRunning obs @ [DriverStopped]) w = Some (None, w')
           \<and> same_setup w w'
           \<and> file_text f (trace w') []
               = file_text f (trace w) [] @ concat (map (\<lambda>ob. nl # tick_record w ob) obs)"
  using assms
proof (induction obs arbitrary: w)
  case Nil
  then show ?case by (simp add: same_setup_def)
next
  case (Cons ob obs)
  from Cons.prems obtain w1 where w1: "merge_tick ar ob w = (None, w1)" "same_setup w w1"
    "loop_ready w1"
    "file_text f (trace w1) [] = file_text f (trace w) [] @ nl # tick_record w ob"
    using merge_tick_ready [of w f ob] by auto
  have f1: "outfile w1 = Some f"
    using w1(2) Cons.prems(2) by (simp add: same_setup_def)
  have r1: "\<forall>ob\<in>set obs. tick_ready w1 ob"
    using Cons.prems(3) w1(2) by (simp add: tick_ready_same_setup)
  from Cons.IH [OF w1(3) f1 r1] obtain w' where w':
    "run_loop ar (map DriverRunning obs @ [DriverStopped]) w1 = Some (None, w')"
    "same_setup w1 w'"
    "file_text f (trace w') []
       = file_text f (trace w1) [] @ concat (map (\<lambda>ob. nl # tick_record w1 ob) obs)"
    by auto
  have "same_setup w w'"
    using w1(2) w'(2) by (simp add: same_setup_def)
  moreover have "tick_record w1 = tick_record w"
    using w1(2) by (intro ext) (simp add: tick_record_same_setup)
  ultimately show ?case
    using w1(1,4) w'(1,3) by simp
qed

lemma lines_of_rows:
  assumes "\<forall>x\<in>set xs. Ch (CHR 0x0A) \<notin> set (r x)"
  shows "lines_of (old @ concat (map (\<lambda>x. nl # r x) xs)) = lines_of old @ map r xs"
  using assms
proof (induction xs arbitrary: old)
  case Nil
  then show ?case by simp
next
  case (Cons x xs)
  have "lines_of ((old @ nl # r x) @ concat (map (\<lambda>x. nl # r x) xs))
          = lines_of (old @ nl # r x) @ map r xs"
    using Cons.prems by (intro Cons.IH) simp
  moreover have "lines_of (old @ nl # r x) = lines_of old @ [r x]"
    using Cons.prems by (simp add: nl_def lines_of_append_newline lines_of_no_newline)
  ultimately show ?case by simp
qed

lemma tick_record_no_newline: "Ch (CHR 0x0A) \<notin> set (tick_record w ob)"
  using record_line_no_newline
  by (auto simp: tick_record_def split: option.splits sum.splits)

lemma elapsed_of_tick_record:
  assumes "tick_ready w ob"
  shows "elapsed_of_line (tick_record w ob) = tick_time ob"
proof -
  from assms obtain pt ys where "last_data_point ob = Some pt"
    and "calc_intensities w (intensities ob) = Inr ys"
    by (auto simp: tick_ready_def split: sum.splits)
  then show ?thesis
    by (simp add: tick_record_def tick_time_def elapsed_of_record_line)
qed

lemma run_loop_lines:
  assumes "loop_ready w" and "outfile w = Some f" and "\<forall>ob\<in>set obs. tick_ready w ob"
  shows "\<exists>w'. run_loop ar (map DriverRunning obs @ [DriverStopped]) w = Some (None, w')
           \<and> same_setup w w'
           \<and> lines_of (file_text f (trace w') [])
               = lines_of (file_text f (trace w) []) @ map (tick_record w) obs"
proof -
  from run_loop_ready [OF assms] obtain w' where
    w': "run_loop ar (map DriverRunning obs @ [DriverStopped]) w = Some (None, w')"
        "same_setup w w'"
        "file_text f (trace w') []
           = file_text f (trace w) [] @ concat (map (\<lambda>ob. nl # tick_record w ob) obs)"
    by blast
  have "lines_of (file_text f (trace w) [] @ concat (map (\<lambda>ob. nl # tick_record w ob) obs))
          = lines_of (file_text f (trace w) []) @ map (tick_record w) obs"
    by (rule lines_of_rows) (simp add: tick_record_no_newline)
  with w' show ?thesis by auto
qed

lemma example_window_ready:
  "loop_ready example_window" "outfile example_window = Some ''run.csv''"
  "tick_ready example_window (example_obs t v i)"
  "tick_record example_window (example_obs t v i)
     = record_line \<lparr>pt_time = t, pt_vf = v, pt_im = i\<rparr> [Fin 7]"
  by (simp_all add: example_window_def init_window_def loop_ready_def tick_ready_def
        tick_record_def example_obs_def calc_intensities_def)

lemma example_window_lines:
  "lines_of (file_text ''run.csv'' (trace example_window) [])
     = [str ''>>>Begin Data<<<'', str ''Time_s,Potential_V,Current_A'' @ [Ch (CHR '',''), Fix 1 400]]"
  by (simp add: example_window_def init_window_def str_def nl_def)

lemma data_rows_example:
  "data_rows_of_lines (str ''>>>Begin Data<<<'' # header # rows) = rows"
  by (simp add: data_rows_of_lines_def)

lemma example_two_ticks:
  "\<exists>w'. run_loop exact_arith [DriverRunning (example_obs t1 v1 i1), DriverRunning (example_obs t2 v2 i2),
                    DriverStopped] example_window = Some (None, w')
         \<and> data_rows (file_text ''run.csv'' (trace w') [])
             = [record_line \<lparr>pt_time = t1, pt_vf = v1, pt_im = i1\<rparr> [Fin 7],
                record_line \<lparr>pt_time = t2, pt_vf = v2, pt_im = i2\<rparr> [Fin 7]]"
proof -
  define obs where "obs = [example_obs t1 v1 i1, example_obs t2 v2 i2]"
  have "\<forall>ob\<in>set obs. tick_ready example_window ob"
    by (simp add: obs_def example_window_ready)
  from run_loop_lines [OF example_window_ready(1,2) this]
  obtain w' where r: "run_loop exact_arith (map DriverRunning obs @ [DriverStopped]) example_window
                          = Some (None, w')"
    and l: "lines_of (file_text ''run.csv'' (trace w') [])
              = lines_of (file_text ''run.csv'' (trace example_window) [])
                @ map (tick_record example_window) obs"
    by blast
  have "data_rows (file_text ''run.csv'' (trace w') [])
          = [record_line \<lparr>pt_time = t1, pt_vf = v1, pt_im = i1\<rparr> [Fin 7],
             record_line \<lparr>pt_time = t2, pt_vf = v2, pt_im = i2\<rparr> [Fin 7]]"
    unfolding data_rows_def l example_window_lines
    by (simp add: obs_def example_window_ready data_rows_example)
  with r show ?thesis
    by (intro exI [of _ w']) (simp add: obs_def)
qed

text \<open>
  C1, as the code has it. When every pass finds a data point and can compute its
  intensities, a run of \<open>N\<close> passes ends normally once the driver stops, and the output
  file has gained exactly \<open>N\<close> lines, one per pass and in the order of the passes; the
  elapsed-time field of each is the time of the data point polled in that pass. So the
  elapsed times of successive records increase strictly only where the polled points do.
\<close>

theorem run_loop_one_record_per_tick:
  assumes "loop_ready w" and "outfile w = Some f" and "\<forall>ob\<in>set obs. tick_ready w ob"
  shows "\<exists>w'. run_loop ar (map DriverRunning obs @ [DriverStopped]) w = Some (None, w')
           \<and> lines_of (file_text f (trace w') [])
               = lines_of (file_text f (trace w) []) @ map (tick_record w) obs
           \<and> length (map (tick_record w) obs) = length obs
           \<and> map elapsed_of_line (map (tick_record w) obs) = map tick_time obs"
proof -
  have "map elapsed_of_line (map (tick_record w) obs) = map tick_time obs"
    using assms(3) by (simp add: elapsed_of_tick_record)
  with run_loop_lines [OF assms] show ?thesis by auto
qed

theorem run_loop_one_record_per_tick_witness:
  "\<exists>w'. run_loop exact_arith (map DriverRunning [example_obs 1 0 0, example_obs 2 0 0] @ [DriverStopped])
            example_window = Some (None, w')
         \<and> lines_of (file_text ''run.csv'' (trace w') [])
             = lines_of (file_text ''run.csv'' (trace example_window) [])
               @ map (tick_record example_window) [example_obs 1 0 0, example_obs 2 0 0]
         \<and> map elapsed_of_line
               (map (tick_record example_window) [example_obs 1 0 0, example_obs 2 0 0])
             = [Some 1, Some 2]"
proof -
  have "\<forall>ob\<in>set [example_obs 1 0 0, example_obs 2 0 0]. tick_ready example_window ob"
    by (simp add: example_window_ready)
  from run_loop_one_record_per_tick [OF example_window_ready(1,2) this]
  show ?thesis
    by (simp add: tick_time_def example_obs_def)
qed

text \<open>
  C1 as stated fails: two passes that poll the same data point (the potentiostat has
  produced no new point in between) write two records with the same elapsed time.
\<close>

theorem repeated_point_counterexample:
  "map_option (recorded_times ''run.csv'' \<circ> snd)
     (run_loop exact_arith [DriverRunning (example_obs 1 0 0), DriverRunning (example_obs 1 0 0),
                DriverStopped] example_window)
     = Some [Some 1, Some 1]
   \<and> \<not> strictly_increasing [Some 1, Some 1]"
proof -
  from example_two_ticks [of 1 0 0 1 0 0] obtain w' where
    "run_loop exact_arith [DriverRunning (example_obs 1 0 0), DriverRunning (example_obs 1 0 0),
               DriverStopped] example_window = Some (None, w')"
    "data_rows (file_text ''run.csv'' (trace w') [])
       = [record_line \<lparr>pt_time = 1, pt_vf = 0, pt_im = 0\<rparr> [Fin 7],
          record_line \<lparr>pt_time = 1, pt_vf = 0, pt_im = 0\<rparr> [Fin 7]]"
    by blast
  then show ?thesis
    by (simp add: recorded_times_def elapsed_of_record_line)
qed

subsection \<open>What a pass that goes through has read and done\<close>

lemma calc_intensities_tick_window:
  "calc_intensities (emit e (w\<lparr>most_recent_pstat_pt := p\<rparr>)) raw = calc_intensities w raw"
  by (rule calc_intensities_cong) (simp_all add: emit_def)

lemma emit_fields:
  "spectrometer (emit e w) = spectrometer w" "outfile (emit e w) = outfile w"
  "last_file_flush (emit e w) = last_file_flush w" "num_freq_s (emit e w) = num_freq_s w"
  "outfile (emits es w) = outfile w"
  "last_file_flush (emits es w) = last_file_flush w" "num_freq_s (emits es w) = num_freq_s w"
  by (simp_all add: emit_def emits_def)

lemma merge_tick_NoneD:
  assumes "merge_tick ar ob w = (None, w')"
  shows "\<exists>pt m ys f lf d. last_data_point ob = Some pt \<and> spectrometer w = Some m
           \<and> calc_intensities w (intensities ob) = Inr ys \<and> outfile w = Some f
           \<and> last_file_flush w = Some lf \<and> num_freq_s w = Some d"
proof (cases "last_data_point ob")
  case None
  with assms show ?thesis by (simp add: merge_tick_def)
next
  case pt: (Some pt)
  show ?thesis
  proof (cases "spectrometer w")
    case None
    with assms pt show ?thesis by (simp add: merge_tick_def)
  next
    case m: (Some m)
    show ?thesis
    proof (cases "calc_intensities w (intensities ob)")
      case (Inl e)
      with assms pt m show ?thesis
        by (simp add: merge_tick_def calc_intensities_tick_window)
    next
      case ys: (Inr ys)
      show ?thesis
      proof (cases "outfile w")
        case None
        with assms pt m ys show ?thesis
          by (simp add: merge_tick_def calc_intensities_tick_window emit_fields)
      next
        case f: (Some f)
        show ?thesis
        proof (cases "last_file_flush w")
          case None
          with assms pt m ys f show ?thesis
            by (simp add: merge_tick_def calc_intensities_tick_window emit_fields)
        next
          case lf: (Some lf)
          show ?thesis
          proof (cases "num_freq_s w")
            case None
            with assms pt m ys f lf show ?thesis
              by (simp add: merge_tick_def calc_intensities_tick_window emit_fields Let_def
                       split: if_splits)
          next
            case (Some d)
            with pt m ys f lf show ?thesis by simp
          qed
        qed
      qed
    qed
  qed
qed

lemma merge_tick_trace:
  assumes "merge_tick ar ob w = (None, w')"
  shows "\<exists>pt ys f lf d. last_data_point ob = Some pt
           \<and> calc_intensities w (intensities ob) = Inr ys \<and> outfile w = Some f
           \<and> last_file_flush w = Some lf \<and> num_freq_s w = Some d
           \<and> most_recent_pstat_pt w' = Some pt
           \<and> last_file_flush w' = Some (if fl_sub ar (pt_time pt) lf > 30 then pt_time pt else lf)
           \<and> trace w' = trace w @ Hw Capture # merged_row pt ys f
                          @ (if fl_sub ar (pt_time pt) lf > 30 then [Flush f] else []) @ [Sleep d]"
proof -
  from merge_tick_NoneD [OF assms] obtain pt m ys f lf d where
    h: "last_data_point ob = Some pt" "spectrometer w = Some m"
       "calc_intensities w (intensities ob) = Inr ys" "outfile w = Some f"
       "last_file_flush w = Some lf" "num_freq_s w = Some d"
    by blast
  from merge_tick_ok [OF h] assms
  have "w' = w\<lparr>most_recent_pstat_pt := Some pt,
                last_file_flush := Some (if fl_sub ar (pt_time pt) lf > 30 then pt_time pt else lf),
                trace := trace w @ Hw Capture # merged_row pt ys f
                           @ (if fl_sub ar (pt_time pt) lf > 30 then [Flush f] else []) @ [Sleep d]\<rparr>"
    by simp
  then have "most_recent_pstat_pt w' = Some pt"
    "last_file_flush w' = Some (if fl_sub ar (pt_time pt) lf > 30 then pt_time pt else lf)"
    "trace w' = trace w @ Hw Capture # merged_row pt ys f
                  @ (if fl_sub ar (pt_time pt) lf > 30 then [Flush f] else []) @ [Sleep d]"
    by simp_all
  with h show ?thesis by blast
qed

lemma count_list_append: "count_list (xs @ ys) a = count_list xs a + count_list ys a"
  by (induction xs) simp_all

lemma count_flush_merged_row: "count_list (merged_row pt ys f) (Flush g) = 0"
  by (induction ys) (simp_all add: merged_row_def count_list_append)

lemma not_sleep_merged_row: "e \<in> set (merged_row pt ys f) \<Longrightarrow> \<not> is_sleep e"
  by (auto simp: merged_row_def is_sleep_def)

lemma filter_hw_merged_row: "filter is_hw (merged_row pt ys f) = []"
  by (auto simp: merged_row_def is_hw_def filter_empty_conv)

lemma example_merge_tick:
  "merge_tick exact_arith (example_obs t v i) (example_window\<lparr>last_file_flush := Some lf\<rparr>) =
     (None, example_window\<lparr>last_file_flush := Some lf\<rparr>
              \<lparr>most_recent_pstat_pt := Some \<lparr>pt_time = t, pt_vf = v, pt_im = i\<rparr>,
               last_file_flush := Some (if t - lf > 30 then t else lf),
               trace := trace (example_window\<lparr>last_file_flush := Some lf\<rparr>) @ Hw Capture
                          # merged_row \<lparr>pt_time = t, pt_vf = v, pt_im = i\<rparr> [Fin 7] ''run.csv''
                          @ (if t - lf > 30 then [Flush ''run.csv''] else []) @ [Sleep 5]\<rparr>)"
proof -
  have "merge_tick exact_arith (example_obs t v i) (example_window\<lparr>last_file_flush := Some lf\<rparr>) =
     (None, example_window\<lparr>last_file_flush := Some lf\<rparr>
              \<lparr>most_recent_pstat_pt := Some \<lparr>pt_time = t, pt_vf = v, pt_im = i\<rparr>,
               last_file_flush := Some (if fl_sub exact_arith (pt_time \<lparr>pt_time = t, pt_vf = v, pt_im = i\<rparr>) lf > 30
                                        then pt_time \<lparr>pt_time = t, pt_vf = v, pt_im = i\<rparr> else lf),
               trace := trace (example_window\<lparr>last_file_flush := Some lf\<rparr>) @ Hw Capture
                          # merged_row \<lparr>pt_time = t, pt_vf = v, pt_im = i\<rparr> [Fin 7] ''run.csv''
                          @ (if fl_sub exact_arith (pt_time \<lparr>pt_time = t, pt_vf = v, pt_im = i\<rparr>) lf > 30
                             then [Flush ''run.csv''] else []) @ [Sleep 5]\<rparr>)"
    by (rule merge_tick_ok [where m = "''USB2000''"])
       (simp_all add: example_obs_def example_window_def init_window_def calc_intensities_def)
  then show ?thesis by (simp add: exact_arith_def)
qed

subsection \<open>Flushing and sleeping\<close>

lemma merge_tick_capture:
  "merge_tick ar (ob\<lparr>capture_s := c\<rparr>) w = merge_tick ar ob w"
  by (simp add: merge_tick_def Let_def cong: option.case_cong sum.case_cong)

lemma flushed_text_append:
  "flushed_text f (es1 @ es2) acc disk
     = flushed_text f es2 (file_text f es1 acc) (flushed_text f es1 acc disk)"
  by (induction f es1 acc disk rule: flushed_text.induct) simp_all

lemma flushed_text_at_flush:
  "flushed_text f (es @ [Flush f, Sleep d]) [] [] = file_text f (es @ [Flush f, Sleep d]) []"
  by (simp add: flushed_text_append file_text_append)

lemma merge_tick_flush:
  assumes "merge_tick ar ob w = (None, w')" and "last_data_point ob = Some pt"
    and "outfile w = Some f" and "last_file_flush w = Some lf"
  shows "flush_count f w' = flush_count f w + (if fl_sub ar (pt_time pt) lf > 30 then 1 else 0)"
    and "last_file_flush w' = Some (if fl_sub ar (pt_time pt) lf > 30 then pt_time pt else lf)"
    and "outfile w' = Some f"
    and "fl_sub ar (pt_time pt) lf > 30 \<Longrightarrow> flushed_text f (trace w') [] [] = file_text f (trace w') []"
proof -
  from merge_tick_NoneD [OF assms(1)] assms(2-4) obtain m ys d where
    h: "spectrometer w = Some m" "calc_intensities w (intensities ob) = Inr ys"
       "num_freq_s w = Some d"
    by auto
  note ok = merge_tick_ok [OF assms(2) h(1,2) assms(3,4) h(3)]
  from ok assms(1)
  have w': "w' = w\<lparr>most_recent_pstat_pt := Some pt,
                last_file_flush := Some (if fl_sub ar (pt_time pt) lf > 30 then pt_time pt else lf),
                trace := trace w @ Hw Capture # merged_row pt ys f
                           @ (if fl_sub ar (pt_time pt) lf > 30 then [Flush f] else []) @ [Sleep d]\<rparr>"
    by simp
  show "flush_count f w' = flush_count f w + (if fl_sub ar (pt_time pt) lf > 30 then 1 else 0)"
    unfolding flush_count_def w'
    by (simp add: count_list_append count_flush_merged_row)
  show "last_file_flush w' = Some (if fl_sub ar (pt_time pt) lf > 30 then pt_time pt else lf)"
    unfolding w' by simp
  show "outfile w' = Some f"
    unfolding w' by (simp add: assms(3))
  show "flushed_text f (trace w') [] [] = file_text f (trace w') []" if "fl_sub ar (pt_time pt) lf > 30"
  proof -
    from that have "trace w' = (trace w @ Hw Capture # merged_row pt ys f) @ [Flush f, Sleep d]"
      unfolding w' by simp
    then show ?thesis
      by (simp only: flushed_text_at_flush)
  qed
qed

text \<open>
  C7, as the code has it. A pass that goes through captures the spectrum, writes its
  record (and possibly flushes), and then sleeps once, for the whole merge period
  \<open>num_freq_s\<close>; the time the capture took plays no part in the pass.
\<close>

theorem merge_tick_sleeps_full_period:
  assumes "merge_tick ar ob w = (None, w')"
  shows "\<exists>d es. num_freq_s w = Some d
           \<and> trace w' = trace w @ Hw Capture # es @ [Sleep d]
           \<and> filter is_sleep es = []
           \<and> (\<forall>c. merge_tick ar (ob\<lparr>capture_s := c\<rparr>) w = (None, w'))"
proof -
  from merge_tick_trace [OF assms] obtain pt ys f lf d where
    h: "num_freq_s w = Some d"
       "trace w' = trace w @ Hw Capture # merged_row pt ys f
                     @ (if fl_sub ar (pt_time pt) lf > 30 then [Flush f] else []) @ [Sleep d]"
    by blast
  define es where "es = merged_row pt ys f @ (if fl_sub ar (pt_time pt) lf > 30 then [Flush f] else [])"
  have "filter is_sleep es = []"
    using not_sleep_merged_row [of _ pt ys f]
    by (auto simp: es_def filter_empty_conv is_sleep_def)
  moreover have "trace w' = trace w @ Hw Capture # es @ [Sleep d]"
    by (simp add: h(2) es_def)
  moreover have "\<forall>c. merge_tick ar (ob\<lparr>capture_s := c\<rparr>) w = (None, w')"
    by (simp add: merge_tick_capture assms)
  ultimately show ?thesis
    using h(1) by blast
qed

theorem merge_tick_sleeps_full_period_witness:
  "\<exists>d es. num_freq_s (example_window\<lparr>last_file_flush := Some 0\<rparr>) = Some d
     \<and> trace (snd (merge_tick exact_arith (example_obs 1 0 0) (example_window\<lparr>last_file_flush := Some 0\<rparr>)))
         = trace (example_window\<lparr>last_file_flush := Some 0\<rparr>) @ Hw Capture # es @ [Sleep d]
     \<and> filter is_sleep es = []"
  using merge_tick_sleeps_full_period [OF example_merge_tick [of 1 0 0 0]]
  by (simp only: example_merge_tick snd_conv) blast

text \<open>
  C7 as stated fails: with a merge period of 5 s and a capture that took 1 s, the pass
  ends with a sleep of 5 s, not of 4 s.
\<close>

theorem full_sleep_counterexample:
  "last (trace (snd (merge_tick exact_arith (example_obs 1 0 0) (example_window\<lparr>last_file_flush := Some 0\<rparr>))))
     = Sleep 5
   \<and> num_freq_s (example_window\<lparr>last_file_flush := Some 0\<rparr>) = Some 5
   \<and> capture_s (example_obs 1 0 0) = 1"
  by (simp add: example_merge_tick) (simp add: example_window_def init_window_def example_obs_def)

subsection \<open>The live selector\<close>

lemma merge_tick_selector:
  "merge_tick ar ob (w\<lparr>spec_intensity_type := t\<rparr>)
     = apsnd (\<lambda>w'. w'\<lparr>spec_intensity_type := t\<rparr>) (merge_tick ar ob w)"
  by (simp add: merge_tick_def Let_def emit_def emits_def calc_intensities_def
           split: option.splits sum.splits)

lemma run_loop_live_selector:
  "map_option (apsnd trace) (run_loop_live ar xs (w\<lparr>spec_intensity_type := t\<rparr>))
     = map_option (apsnd trace) (run_loop_live ar xs w)"
proof (induction xs arbitrary: w t)
  case Nil
  then show ?case by simp
next
  case (Cons x xs)
  obtain sel p where x: "x = (sel, p)" by (cases x)
  show ?case
  proof (cases sel)
    case (Some t')
    with x show ?thesis by simp
  next
    case None
    show ?thesis
    proof (cases p)
      case DriverStopped
      with x None show ?thesis by simp
    next
      case (DriverRunning ob)
      obtain e w1 where m: "merge_tick ar ob w = (e, w1)" by (cases "merge_tick ar ob w")
      then have m': "merge_tick ar ob (w\<lparr>spec_intensity_type := t\<rparr>) = (e, w1\<lparr>spec_intensity_type := t\<rparr>)"
        by (simp add: merge_tick_selector)
      show ?thesis
      proof (cases e)
        case None
        with x \<open>sel = None\<close> DriverRunning m m' Cons.IH [where w = w1 and t = t] show ?thesis by simp
      next
        case (Some err)
        with x \<open>sel = None\<close> DriverRunning m m' show ?thesis by simp
      qed
    qed
  qed
qed

lemma run_loop_live_same_polls:
  "map snd xs = map snd ys \<Longrightarrow>
     map_option (apsnd trace) (run_loop_live ar xs w) = map_option (apsnd trace) (run_loop_live ar ys w)"
proof (induction xs arbitrary: ys w)
  case Nil
  then show ?case by simp
next
  case (Cons x xs)
  then obtain y ys' where ys: "ys = y # ys'" and tl: "map snd xs = map snd ys'"
    and hd: "snd x = snd y"
    by (cases ys) auto
  obtain a p where x: "x = (a, p)" by (cases x)
  with hd obtain b where y: "y = (b, p)" by (cases y) auto
  define wa where "wa = (case a of None \<Rightarrow> w | Some t \<Rightarrow> w\<lparr>spec_intensity_type := t\<rparr>)"
  define wb where "wb = (case b of None \<Rightarrow> w | Some t \<Rightarrow> w\<lparr>spec_intensity_type := t\<rparr>)"
  obtain ta where wa: "wa = w\<lparr>spec_intensity_type := ta\<rparr>"
    by (cases a) (auto simp: wa_def intro: that [of "spec_intensity_type w"])
  obtain tb where wb: "wb = w\<lparr>spec_intensity_type := tb\<rparr>"
    by (cases b) (auto simp: wb_def intro: that [of "spec_intensity_type w"])
  show ?case
  proof (cases p)
    case DriverStopped
    with x y ys show ?thesis
      by (simp add: wa_def [symmetric] wb_def [symmetric]) (simp add: wa wb)
  next
    case (DriverRunning ob)
    obtain e w1 where m: "merge_tick ar ob w = (e, w1)" by (cases "merge_tick ar ob w")
    have ma: "merge_tick ar ob wa = (e, w1\<lparr>spec_intensity_type := ta\<rparr>)"
      and mb: "merge_tick ar ob wb = (e, w1\<lparr>spec_intensity_type := tb\<rparr>)"
      using m by (simp_all add: wa wb merge_tick_selector)
    have l: "run_loop_live ar (x # xs) w
               = (case e of Some err \<Rightarrow> Some (Some err, w1\<lparr>spec_intensity_type := ta\<rparr>)
                  | None \<Rightarrow> run_loop_live ar xs (w1\<lparr>spec_intensity_type := ta\<rparr>))"
      using x DriverRunning ma by (simp add: wa_def [symmetric] split: option.splits)
    have r: "run_loop_live ar ys w
               = (case e of Some err \<Rightarrow> Some (Some err, w1\<lparr>spec_intensity_type := tb\<rparr>)
                  | None \<Rightarrow> run_loop_live ar ys' (w1\<lparr>spec_intensity_type := tb\<rparr>))"
      using y ys DriverRunning mb by (simp add: wb_def [symmetric] split: option.splits)
    show ?thesis
    proof (cases e)
      case (Some err)
      with l r show ?thesis by simp
    next
      case None
      have "map_option (apsnd trace) (run_loop_live ar xs (w1\<lparr>spec_intensity_type := ta\<rparr>))
              = map_option (apsnd trace) (run_loop_live ar ys' (w1\<lparr>spec_intensity_type := ta\<rparr>))"
        by (rule Cons.IH [OF tl])
      also have "\<dots> = map_option (apsnd trace) (run_loop_live ar ys' w1)"
        by (rule run_loop_live_selector)
      also have "\<dots> = map_option (apsnd trace) (run_loop_live ar ys' (w1\<lparr>spec_intensity_type := tb\<rparr>))"
        by (rule run_loop_live_selector [symmetric])
      finally show ?thesis
        using None l r by simp
    qed
  qed
qed

lemma run_loop_live_no_changes:
  "run_loop_live ar (map (Pair None) ps) w = run_loop ar ps w"
proof (induction ps arbitrary: w)
  case Nil
  then show ?case by simp
next
  case (Cons p ps)
  then show ?case
    by (cases p) (auto split: prod.splits option.splits)
qed

text \<open>
  C3. Two executions of the loop that start from the same window and see the same
  answers from the instruments, and differ only in what the user selects in the
  intensity box between the passes, end in the same way and leave the same trace of
  effects: every write to the output file, and so every record, is the same. The kind
  used is \<open>running_intensity_type\<close>, which \<^verbatim>\<open>start_measurement\<close> copies from the box.
\<close>

theorem live_selector_not_read:
  assumes "map snd xs = map snd ys"
  shows "map_option (apsnd trace) (run_loop_live ar xs w)
           = map_option (apsnd trace) (run_loop_live ar ys w)"
  using assms by (rule run_loop_live_same_polls)

theorem live_selector_not_read_witness:
  "map_option (apsnd trace)
     (run_loop_live exact_arith [(None, DriverRunning (example_obs 1 0 0)), (None, DriverStopped)]
        example_window)
   = map_option (apsnd trace)
     (run_loop_live exact_arith [(Some ''Abs'', DriverRunning (example_obs 1 0 0)),
                     (Some ''%T or %R'', DriverStopped)] example_window)"
  using live_selector_not_read
          [of "[(None, DriverRunning (example_obs 1 0 0)), (None, DriverStopped)]"
              "[(Some ''Abs'', DriverRunning (example_obs 1 0 0)),
                (Some ''%T or %R'', DriverStopped)]" exact_arith example_window]
  by simp

section \<open>Starting a measurement\<close>

lemmas start_defs = start_measurement_def check_settings_def parse_pstat_def collection_ms_def
  check_connected_def commit_start_def and_then_def open_outfile_def filename_intensity_type_def
  run_filename_def replace_colons_def write_reference_file_def write_dark_file_def
  write_baseline_def baseline_header_def baseline_rows_def spectrometer_lines_def
  write_main_header_def main_header_def setup_pstat_def pstat_commands_def begin_run_def
  emit_def emits_def Let_def bool_str_def

lemmas example_defs = example_env_def exact_arith_def connected_window_def typed_window_def
  init_window_def

subsection \<open>How the function is left\<close>

lemma and_then_Next:
  assumes "and_then r k = (Next, w')"
  shows "\<exists>w1. r = (Next, w1) \<and> k w1 = (Next, w')"
  using assms by (cases r) (auto simp: and_then_def split: flow.splits)

lemma check_settings_Accepted:
  assumes "check_settings env w = Accepted p"
  shows "parse_pstat env w
           = Some (v1_num p, v2_num p, scanrate_num p, cycles_num p, sample_period p)"
  using assms
  by (auto simp: check_settings_def check_connected_def Let_def
           split: option.splits prod.splits if_splits bool.splits)

lemma start_Next:
  assumes "start_measurement env w = (Next, w')"
  shows "\<exists>p. check_settings env w = Accepted p \<and> commit_start env p w = (Next, w')"
  using assms
  by (auto simp: start_measurement_def split: if_splits check_result.splits)

lemma begin_run_fields:
  assumes "begin_run ar p w = (r, w')"
  shows "calc_run_time w'
           = Some (fl_mul ar
                     (fl_mul ar (fl_div ar \<bar>fl_sub ar (v2_num p) (v1_num p)\<bar> (scanrate_num p)) 2)
                     (of_int (cycles_num p)))"
    and "num_freq_s w' = Some (fl_div ar (collection_time_ms p) 1000)"
  using assms by (auto simp: begin_run_def Let_def emit_def emits_def)

lemma commit_start_Next:
  assumes "commit_start env p w = (Next, w')"
  shows "\<exists>w1 w2 w3 w4 w5. open_outfile env w = (Next, w1)
           \<and> write_reference_file env w1 = (Next, w2)
           \<and> write_dark_file env w2 = (Next, w3)
           \<and> write_main_header env w3 = (Next, w4)
           \<and> setup_pstat p w4 = (Next, w5)
           \<and> begin_run (fl env) p w5 = (Next, w')"
proof -
  from assms obtain w1 where 1: "open_outfile env w = (Next, w1)"
    and "and_then (write_reference_file env w1) (\<lambda>w.
     and_then (write_dark_file env w) (\<lambda>w.
     and_then (write_main_header env w) (\<lambda>w.
     and_then (setup_pstat p w) (begin_run (fl env) p)))) = (Next, w')"
    unfolding commit_start_def by (blast dest: and_then_Next)
  then obtain w2 where 2: "write_reference_file env w1 = (Next, w2)"
    and "and_then (write_dark_file env w2) (\<lambda>w.
     and_then (write_main_header env w) (\<lambda>w.
     and_then (setup_pstat p w) (begin_run (fl env) p))) = (Next, w')"
    by (blast dest: and_then_Next)
  then obtain w3 where 3: "write_dark_file env w2 = (Next, w3)"
    and "and_then (write_main_header env w3) (\<lambda>w.
     and_then (setup_pstat p w) (begin_run (fl env) p)) = (Next, w')"
    by (blast dest: and_then_Next)
  then obtain w4 where 4: "write_main_header env w3 = (Next, w4)"
    and "and_then (setup_pstat p w4) (begin_run (fl env) p) = (Next, w')"
    by (blast dest: and_then_Next)
  then obtain w5 where 5: "setup_pstat p w4 = (Next, w5)"
    and 6: "begin_run (fl env) p w5 = (Next, w')"
    by (blast dest: and_then_Next)
  from 1 2 3 4 5 6 show ?thesis by blast
qed

subsection \<open>The run time\<close>

text \<open>
  C8. When \<^verbatim>\<open>start_measurement\<close> has started a run, with the text boxes holding the
  numbers \<open>v1\<close>, \<open>v2\<close>, \<open>scanrate\<close>, \<open>cycles\<close> of a valid waveform, the run time it has
  computed is \<open>|v2 - v1| / scanrate * 2 * cycles\<close>: this expression, evaluated from left to
  right with the machine's operations; and the same expression over the real numbers
  when the operations do not round.
\<close>

theorem calc_run_time_formula:
  assumes "start_measurement env w = (Next, w')"
    and "parse_pstat env w = Some (v1, v2, scanrate, cycles, period)"
    and "0 < scanrate" and "0 < period" and "1 \<le> cycles" and "v1 \<noteq> v2"
  shows "calc_run_time w'
           = Some (fl_mul (fl env)
                     (fl_mul (fl env) (fl_div (fl env) \<bar>fl_sub (fl env) v2 v1\<bar> scanrate) 2)
                     (of_int cycles))
         \<and> (fl env = exact_arith
              \<longrightarrow> calc_run_time w' = Some (\<bar>v2 - v1\<bar> / scanrate * 2 * of_int cycles))"
proof -
  from start_Next [OF assms(1)] obtain p where
    p: "check_settings env w = Accepted p" "commit_start env p w = (Next, w')"
    by blast
  from check_settings_Accepted [OF p(1)] assms(2)
  have "v1_num p = v1" "v2_num p = v2" "scanrate_num p = scanrate" "cycles_num p = cycles"
    by simp_all
  moreover from commit_start_Next [OF p(2)] obtain w5 where "begin_run (fl env) p w5 = (Next, w')"
    by blast
  ultimately have "calc_run_time w'
           = Some (fl_mul (fl env)
                     (fl_mul (fl env) (fl_div (fl env) \<bar>fl_sub (fl env) v2 v1\<bar> scanrate) 2)
                     (of_int cycles))"
    using begin_run_fields(1) [of "fl env" p w5 Next w'] by simp
  then show ?thesis
    by (simp add: exact_arith_def)
qed

lemma started_window_eq:
  "\<exists>T. start_measurement example_env connected_window =
     (Next, connected_window\<lparr>
        running_intensity_type := Some ''Raw Int.'',
        outfile := Some example_outfile,
        filename := Some example_outfile,
        dark_filename := Some ''./Experiment_2026-02-16T10-00-00_DARK_SPECTRUM.csv'',
        filename_time := Some ''2026-02-16T10:00:00'',
        calc_run_time := Some 60,
        num_freq_s := Some 5,
        acq_curve := Some 4000000,
        trace := T\<rparr>)"
  by (simp add: start_defs example_defs example_outfile_def upt_rec)

lemma example_start_Next:
  "start_measurement example_env connected_window = (Next, started_window)"
  using started_window_eq by (auto simp: started_window_def)

lemma example_parse:
  "parse_pstat example_env connected_window = Some (0, 5, 1 / 2, 3, 1 / 2)"
  by (simp add: parse_pstat_def example_defs)

theorem calc_run_time_formula_witness:
  "calc_run_time started_window = Some 60"
  using calc_run_time_formula [OF example_start_Next example_parse]
  by (simp add: example_env_def exact_arith_def)

subsection \<open>A start that is refused\<close>

text \<open>A check that fails leaves the window as it was, but for the message box.\<close>

lemma start_rejected:
  assumes "\<not> running w" and "check_settings env w = Rejected title message"
  shows "start_measurement env w = (Return, emit (ShowWarning title message) w)"
  using assms by (simp add: start_measurement_def)

lemma start_rejected_no_effect:
  assumes "\<not> running w" and "check_settings env w = Rejected title message"
  shows "filter touches_file (trace (snd (start_measurement env w))) = filter touches_file (trace w)"
    and "filter is_hw (trace (snd (start_measurement env w))) = filter is_hw (trace w)"
    and "running (snd (start_measurement env w)) = running w"
  using assms by (simp_all add: start_measurement_def emit_def touches_file_def is_hw_def)

text \<open>
  With a spectrometer that has been connected (so that the integration time and the
  reference flag exist) and one of the four units, each of the failures is refused with
  a message.
\<close>

lemma check_settings_rejects:
  assumes "integration_time_micros w = Some micros" and "has_reference_spec w = Some b"
    and "collection_ms (fl env) (spec_freq_units w) c = Some ms"
    and "py_float env (spec_freq_txt w) = Some c \<or> parse_pstat env w = None"
    and "parse_pstat env w = None \<or> py_float env (spec_freq_txt w) = None
         \<or> ms \<le> fl_div (fl env) micros 1000
         \<or> (spec_intensity_type w \<noteq> ''Raw Int.'' \<and> \<not> b)
         \<or> (use_pstat w \<and> \<not> has_potentiostat w)
         \<or> (use_spec w \<and> \<not> has_spectrometer w)"
  shows "\<exists>title message. check_settings env w = Rejected title message"
  using assms
  by (auto simp: check_settings_def check_connected_def Let_def
           split: option.splits prod.splits bool.splits)

text \<open>
  C4, where the code falls short of it. The potentiostat is connected, the
  spectrometer has never been connected and is ticked for use, all boxes hold numbers.
  The claim asks for the message that the spectrometer is not connected. The code reads
  \<^verbatim>\<open>self.integration_time_micros\<close> on line 681, before the test of line 713; the attribute
  is first assigned by \<^verbatim>\<open>connect_spectrometer\<close>, so the read raises
  \<^verbatim>\<open>AttributeError\<close>: the window is unchanged and no message box has been shown.
\<close>

theorem start_without_spectrometer_raises:
  "start_measurement example_env typed_window = (Raise AttributeError, typed_window)
   \<and> use_spec typed_window \<and> \<not> has_spectrometer typed_window
   \<and> has_potentiostat typed_window
   \<and> parse_pstat example_env typed_window = Some (0, 5, 1 / 2, 3, 1 / 2)
   \<and> py_float example_env (spec_freq_txt typed_window) = Some 5"
  by (simp add: start_measurement_def check_settings_def parse_pstat_def example_env_def
        typed_window_def init_window_def)

subsection \<open>The baseline files\<close>

text \<open>
  C9, where the code falls short of it. The file of the dark spectrum that
  \<^verbatim>\<open>start_measurement\<close> writes for a spectrometer of two pixels (400 nm and 401 nm, dark
  values 0) has, after the line \<^verbatim>\<open>>>>Begin Data<<<\<close>, not a line of column headers and
  two rows, but two lines: the column headers run on into the first row, because line
  784 writes them without a line end.
\<close>

theorem dark_file_rows:
  "after_sentinel
     (file_text ''./Experiment_2026-02-16T10-00-00_DARK_SPECTRUM.csv''
        (trace (snd (start_measurement example_env connected_window))) [])
   = [str ''Wavelength_nm,Intensity'' @ [Num (Fin 400), Ch (CHR '',''), Num (Fin 0)],
      [Num (Fin 401), Ch (CHR '',''), Num (Fin 0)],
      []]"
  by (simp add: start_defs example_defs upt_rec after_sentinel_def str_def nl_def)

section \<open>Saving one spectrum by hand\<close>

text \<open>A reference spectrum is stored only with a spectrometer connected.\<close>

lemma store_reference_spectrum_needs_spectrometer:
  "has_reference_spec (snd (store_reference_spectrum xs w)) = Some True
     \<Longrightarrow> has_reference_spec w \<noteq> Some True
     \<Longrightarrow> has_spectrometer w \<and> spectrometer w \<noteq> None"
  by (auto simp: store_reference_spectrum_def split: if_splits option.splits)



section \<open>From the start to the loop\<close>

subsection \<open>The instrument commands of a start\<close>

lemma write_all_hw:
  "write_all f items w = (r, w') \<Longrightarrow> filter is_hw (trace w') = filter is_hw (trace w)"
proof (induction items arbitrary: w)
  case Nil
  then show ?case by simp
next
  case (Cons a items)
  show ?case
  proof (cases a)
    case (Inl e)
    with Cons.prems show ?thesis by simp
  next
    case (Inr as)
    with Cons.prems have "write_all f items (emit (Write f as) w) = (r, w')"
      by simp
    from Cons.IH [OF this] show ?thesis
      by (simp add: emit_def is_hw_def)
  qed
qed

lemma open_outfile_hw:
  "open_outfile env w = (r, w') \<Longrightarrow> filter is_hw (trace w') = filter is_hw (trace w)"
  by (auto simp: open_outfile_def Let_def emit_def is_hw_def split: option.splits)

lemma write_baseline_hw:
  assumes "write_baseline env first_line ending spec w = (r, w')"
  shows "filter is_hw (trace w') = filter is_hw (trace w)"
proof (cases "open_error env (run_filename env w ending)")
  case (Some e)
  with assms show ?thesis by (simp add: write_baseline_def)
next
  case None
  obtain r0 w0 where
    w0: "write_all (run_filename env w ending)
           (baseline_header first_line env w @ baseline_rows w spec)
           (emit (OpenW (run_filename env w ending)) w) = (r0, w0)"
    by (cases "write_all (run_filename env w ending)
                 (baseline_header first_line env w @ baseline_rows w spec)
                 (emit (OpenW (run_filename env w ending)) w)")
  with assms None have "w' = emit (Close (run_filename env w ending)) w0"
    by (auto simp: write_baseline_def Let_def split: flow.splits)
  with write_all_hw [OF w0] show ?thesis
    by (simp add: emit_def is_hw_def)
qed

lemma write_reference_file_hw:
  assumes "write_reference_file env w = (r, w')"
  shows "filter is_hw (trace w') = filter is_hw (trace w)"
proof (cases "has_reference_spec w")
  case None
  with assms show ?thesis by (simp add: write_reference_file_def)
next
  case (Some b)
  show ?thesis
  proof (cases b)
    case False
    with Some assms show ?thesis by (simp add: write_reference_file_def)
  next
    case True
    obtain r0 w0 where
      w0: "write_baseline env
             ''Ocean Optics spectrometer reference spectrum generated by Lighthouse''
             ''_REFERENCE_SPECTRUM.csv'' (reference_spec w) w = (r0, w0)"
      by (cases "write_baseline env
                   ''Ocean Optics spectrometer reference spectrum generated by Lighthouse''
                   ''_REFERENCE_SPECTRUM.csv'' (reference_spec w) w")
    with assms Some True have "trace w' = trace w0"
      by (auto simp: write_reference_file_def split: flow.splits)
    with write_baseline_hw [OF w0] show ?thesis by simp
  qed
qed

lemma write_dark_file_hw:
  assumes "write_dark_file env w = (r, w')"
  shows "filter is_hw (trace w') = filter is_hw (trace w)"
proof -
  obtain r0 w0 where
    w0: "write_baseline env
           ''Ocean Optics spectrometer dark spectrum generated by Lighthouse''
           ''_DARK_SPECTRUM.csv'' (dark_spec w) w = (r0, w0)"
    by (cases "write_baseline env
                 ''Ocean Optics spectrometer dark spectrum generated by Lighthouse''
                 ''_DARK_SPECTRUM.csv'' (dark_spec w) w")
  with assms have "trace w' = trace w0"
    by (auto simp: write_dark_file_def split: flow.splits)
  with write_baseline_hw [OF w0] show ?thesis by simp
qed

lemma write_main_header_hw:
  "write_main_header env w = (r, w') \<Longrightarrow> filter is_hw (trace w') = filter is_hw (trace w)"
  by (auto simp: write_main_header_def write_all_hw split: option.splits)

lemma filter_hw_pstat_commands: "filter is_hw (pstat_commands p) = pstat_commands p"
  by (simp add: pstat_commands_def is_hw_def)

lemma setup_pstat_hw:
  "setup_pstat p w = (Next, w') \<Longrightarrow>
     filter is_hw (trace w') = filter is_hw (trace w) @ pstat_commands p"
  by (auto simp: setup_pstat_def emits_def filter_hw_pstat_commands split: option.splits)

lemma begin_run_hw:
  "begin_run ar p w = (r, w') \<Longrightarrow> filter is_hw (trace w') = filter is_hw (trace w)"
  by (auto simp: begin_run_def Let_def emit_def emits_def is_hw_def)

lemma start_hw:
  assumes "start_measurement env w = (Next, w')"
  shows "\<exists>p. check_settings env w = Accepted p
           \<and> filter is_hw (trace w') = filter is_hw (trace w) @ pstat_commands p"
proof -
  from start_Next [OF assms] obtain p where
    p: "check_settings env w = Accepted p" "commit_start env p w = (Next, w')"
    by blast
  from commit_start_Next [OF p(2)] obtain w1 w2 w3 w4 w5 where
    "open_outfile env w = (Next, w1)" "write_reference_file env w1 = (Next, w2)"
    "write_dark_file env w2 = (Next, w3)" "write_main_header env w3 = (Next, w4)"
    "setup_pstat p w4 = (Next, w5)" "begin_run (fl env) p w5 = (Next, w')"
    by blast
  then have "filter is_hw (trace w') = filter is_hw (trace w) @ pstat_commands p"
    by (simp add: open_outfile_hw write_reference_file_hw write_dark_file_hw
          write_main_header_hw setup_pstat_hw begin_run_hw)
  with p(1) show ?thesis by blast
qed

lemma run_measurement_setup_ok:
  assumes "run_measurement_setup w = (None, w')"
  shows "last_file_flush w' = Some (- 100)"
    and "filter is_hw (trace w') = filter is_hw (trace w) @ [Hw (SetCell True), Hw (CurveRun True)]"
    and "file_text f (trace w') [] = file_text f (trace w) []"
  using assms
  by (auto simp: run_measurement_setup_def Let_def emit_def emits_def is_hw_def file_text_append
           split: option.splits)

subsection \<open>The example measurement in its loop\<close>

lemma running_window_facts:
  "run_measurement_setup started_window = (None, running_window)"
  "loop_ready running_window"
  "outfile running_window = Some example_outfile"
  "last_file_flush running_window = Some (- 100)"
  "tick_ready running_window (example_obs2 t v i)"
  "tick_record running_window (example_obs2 t v i)
     = record_line \<lparr>pt_time = t, pt_vf = v, pt_im = i\<rparr> [Fin 7, Fin 8]"
proof -
  from started_window_eq obtain T where
    s: "started_window = connected_window\<lparr>
        running_intensity_type := Some ''Raw Int.'',
        outfile := Some example_outfile,
        filename := Some example_outfile,
        dark_filename := Some ''./Experiment_2026-02-16T10-00-00_DARK_SPECTRUM.csv'',
        filename_time := Some ''2026-02-16T10:00:00'',
        calc_run_time := Some 60,
        num_freq_s := Some 5,
        acq_curve := Some 4000000,
        trace := T\<rparr>"
    by (auto simp: started_window_def)
  have r: "running_window =
             started_window\<lparr>last_file_flush := Some (- 100), running := True,
                             should_draw_pstat := True,
                             trace := T @ [ConfigureLabel ''lbl_cell_state'' ''Cell On'' ''green'',
                                           Hw (SetCell True), Hw (CurveRun True),
                                           StartThread ''plot_pstat_curve'']\<rparr>"
    and ok: "run_measurement_setup started_window = (None, running_window)"
    unfolding running_window_def
    by (simp_all add: s run_measurement_setup_def Let_def emit_def emits_def
          connected_window_def typed_window_def init_window_def)
  show "run_measurement_setup started_window = (None, running_window)"
    by (rule ok)
  show "loop_ready running_window" "outfile running_window = Some example_outfile"
    "last_file_flush running_window = Some (- 100)"
    by (simp_all add: r s loop_ready_def connected_window_def typed_window_def init_window_def)
  show "tick_ready running_window (example_obs2 t v i)"
    "tick_record running_window (example_obs2 t v i)
       = record_line \<lparr>pt_time = t, pt_vf = v, pt_im = i\<rparr> [Fin 7, Fin 8]"
    by (simp_all add: r s tick_ready_def tick_record_def example_obs2_def calc_intensities_def)
qed

lemma started_lines:
  "data_rows_of_lines (lines_of (file_text example_outfile (trace started_window) []) @ rows) = rows"
  by (simp add: started_window_def start_defs example_defs example_outfile_def upt_rec
        data_rows_of_lines_def str_def nl_def)

lemma running_rows:
  assumes "\<forall>ob\<in>set obs. tick_ready running_window ob"
  shows "\<exists>w'. run_loop ar (map DriverRunning obs @ [DriverStopped]) running_window = Some (None, w')
           \<and> data_rows (file_text example_outfile (trace w') [])
               = map (tick_record running_window) obs"
proof -
  from run_loop_lines [OF running_window_facts(2,3) assms]
  obtain w' where r: "run_loop ar (map DriverRunning obs @ [DriverStopped]) running_window
                        = Some (None, w')"
    and l: "lines_of (file_text example_outfile (trace w') [])
              = lines_of (file_text example_outfile (trace running_window) [])
                @ map (tick_record running_window) obs"
    by blast
  have "file_text example_outfile (trace running_window) []
          = file_text example_outfile (trace started_window) []"
    by (rule run_measurement_setup_ok(3) [OF running_window_facts(1)])
  with l have "data_rows (file_text example_outfile (trace w') [])
                 = map (tick_record running_window) obs"
    by (simp add: data_rows_def started_lines)
  with r show ?thesis by blast
qed

lemma running_window_limit: "Hw (SetStopIMax True 5) \<in> set (trace running_window)"
proof -
  from start_hw [OF example_start_Next] obtain p where
    "filter is_hw (trace started_window)
       = filter is_hw (trace connected_window) @ pstat_commands p"
    by blast
  then have "Hw (SetStopIMax True 5) \<in> set (filter is_hw (trace started_window))"
    by (simp add: pstat_commands_def)
  then have "Hw (SetStopIMax True 5) \<in> set (filter is_hw (trace running_window))"
    by (simp add: run_measurement_setup_ok(2) [OF running_window_facts(1)])
  then show ?thesis by simp
qed

subsection \<open>The current limit\<close>

lemma merge_tick_pass:
  assumes "merge_tick ar ob w = (None, w')"
  shows "\<exists>pt ys f. last_data_point ob = Some pt \<and> outfile w = Some f
           \<and> most_recent_pstat_pt w' = Some pt
           \<and> file_text f (trace w') [] = file_text f (trace w) [] @ nl # record_line pt ys
           \<and> elapsed_of_line (record_line pt ys) = Some (pt_time pt)
           \<and> current_of_line (record_line pt ys) = Some (pt_im pt)
           \<and> filter is_hw (trace w') = filter is_hw (trace w) @ [Hw Capture]
           \<and> (\<forall>i. fst (merge_tick ar (ob\<lparr>last_data_point := Some (pt\<lparr>pt_im := i\<rparr>)\<rparr>) w) = None)
           \<and> (\<forall>ps. run_loop ar (DriverRunning ob # ps) w = run_loop ar ps w')"
proof -
  from merge_tick_NoneD [OF assms] obtain pt m ys f lf d where
    h: "last_data_point ob = Some pt" "spectrometer w = Some m"
       "calc_intensities w (intensities ob) = Inr ys" "outfile w = Some f"
       "last_file_flush w = Some lf" "num_freq_s w = Some d"
    by blast
  from merge_tick_trace [OF assms] h have
    t: "most_recent_pstat_pt w' = Some pt"
       "trace w' = trace w @ Hw Capture # merged_row pt ys f
                     @ (if fl_sub ar (pt_time pt) lf > 30 then [Flush f] else []) @ [Sleep d]"
    by auto
  have ft: "file_text f (trace w') [] = file_text f (trace w) [] @ nl # record_line pt ys"
    unfolding t(2) by (simp add: file_text_append file_text_merged_row)
  have hw: "filter is_hw (trace w') = filter is_hw (trace w) @ [Hw Capture]"
    unfolding t(2) by (simp add: filter_hw_merged_row) (simp add: is_hw_def)
  have any: "fst (merge_tick ar (ob\<lparr>last_data_point := Some (pt\<lparr>pt_im := i\<rparr>)\<rparr>) w) = None" for i
    by (subst merge_tick_ok [where pt = "pt\<lparr>pt_im := i\<rparr>" and m = m and ys = ys and f = f
                                and lf = lf and d = d])
       (simp_all add: h)
  have next_pass: "run_loop ar (DriverRunning ob # ps) w = run_loop ar ps w'" for ps
    using assms by simp
  have "last_data_point ob = Some pt \<and> outfile w = Some f
           \<and> most_recent_pstat_pt w' = Some pt
           \<and> file_text f (trace w') [] = file_text f (trace w) [] @ nl # record_line pt ys
           \<and> elapsed_of_line (record_line pt ys) = Some (pt_time pt)
           \<and> current_of_line (record_line pt ys) = Some (pt_im pt)
           \<and> filter is_hw (trace w') = filter is_hw (trace w) @ [Hw Capture]
           \<and> (\<forall>i. fst (merge_tick ar (ob\<lparr>last_data_point := Some (pt\<lparr>pt_im := i\<rparr>)\<rparr>) w) = None)
           \<and> (\<forall>ps. run_loop ar (DriverRunning ob # ps) w = run_loop ar ps w')"
    using h(1,4) t(1) ft hw any next_pass
    by (simp only: elapsed_of_record_line current_of_record_line simp_thms)
  then show ?thesis by blast
qed

text \<open>
  C5, as the code has it. A start that goes through sends the potentiostat exactly the
  commands of \<open>pstat_commands\<close>, the last of which hands the limit of 5 A to the driver
  (\<^verbatim>\<open>set_stop_i_max(True, 5)\<close>). A pass of the loop that goes through has polled one data
  point; the time, potential and current of the record it writes are those of that
  point, and the same point is kept for the status display. The pass compares no
  current with a limit: the only instrument command it issues is the spectral capture,
  it goes through in the same way whatever current the point carries, and whether
  another pass follows is decided by the driver's next answer alone.
\<close>

theorem trip_left_to_driver:
  assumes "start_measurement env w = (Next, w1)" and "merge_tick ar ob wa = (None, wb)"
  shows "(\<exists>p. check_settings env w = Accepted p
            \<and> filter is_hw (trace w1) = filter is_hw (trace w) @ pstat_commands p
            \<and> last (pstat_commands p) = Hw (SetStopIMax True 5))
         \<and> (\<exists>pt ys f. last_data_point ob = Some pt \<and> outfile wa = Some f
              \<and> most_recent_pstat_pt wb = Some pt
              \<and> file_text f (trace wb) [] = file_text f (trace wa) [] @ nl # record_line pt ys
              \<and> elapsed_of_line (record_line pt ys) = Some (pt_time pt)
              \<and> current_of_line (record_line pt ys) = Some (pt_im pt)
              \<and> filter is_hw (trace wb) = filter is_hw (trace wa) @ [Hw Capture]
              \<and> (\<forall>i. fst (merge_tick ar (ob\<lparr>last_data_point := Some (pt\<lparr>pt_im := i\<rparr>)\<rparr>) wa)
                        = None)
              \<and> (\<forall>ps. run_loop ar (DriverRunning ob # ps) wa = run_loop ar ps wb))"
proof -
  from start_hw [OF assms(1)] obtain p where
    "check_settings env w = Accepted p"
    "filter is_hw (trace w1) = filter is_hw (trace w) @ pstat_commands p"
    by blast
  moreover have "last (pstat_commands p) = Hw (SetStopIMax True 5)"
    by (simp add: pstat_commands_def)
  ultimately have "\<exists>p. check_settings env w = Accepted p
            \<and> filter is_hw (trace w1) = filter is_hw (trace w) @ pstat_commands p
            \<and> last (pstat_commands p) = Hw (SetStopIMax True 5)"
    by blast
  from this merge_tick_pass [OF assms(2)] show ?thesis
    by (rule conjI)
qed

lemma running_first_pass:
  "\<exists>w'. merge_tick ar (example_obs2 t v i) running_window = (None, w')"
  using merge_tick_ready [OF running_window_facts(2,3,5)] by blast

theorem trip_left_to_driver_witness:
  "(\<exists>p. check_settings example_env connected_window = Accepted p
      \<and> filter is_hw (trace started_window)
          = filter is_hw (trace connected_window) @ pstat_commands p
      \<and> last (pstat_commands p) = Hw (SetStopIMax True 5))
   \<and> (\<exists>pt. last_data_point (example_obs2 0 0 6) = Some pt
        \<and> (\<forall>i. fst (merge_tick exact_arith
                       (example_obs2 0 0 6\<lparr>last_data_point := Some (pt\<lparr>pt_im := i\<rparr>)\<rparr>)
                       running_window) = None))"
proof -
  from running_first_pass [of exact_arith 0 0 6] obtain w' where
    "merge_tick exact_arith (example_obs2 0 0 6) running_window = (None, w')"
    by blast
  from trip_left_to_driver [OF example_start_Next this] show ?thesis
    by blast
qed

text \<open>
  C5 as stated fails. The example measurement is in its loop, with the limit of 5 A
  set. Before the first test of \<^verbatim>\<open>running()\<close> the curve has one point, without current:
  the first pass records it. During the sleep the curve takes up two more points, the
  second with 6 A, beyond the limit: the driver stops, the next test answers
  \<^verbatim>\<open>False\<close> and the loop ends. The current that tripped the limit is in no record; the
  only recorded current is 0.
\<close>

theorem trip_on_unrecorded_point_counterexample:
  "driver_polls 5 None example_steps = [DriverRunning (example_obs2 0 0 0), DriverStopped]
   \<and> map_option (recorded_currents example_outfile \<circ> snd)
        (run_loop exact_arith (driver_polls 5 None example_steps) running_window)
       = Some [Some 0]
   \<and> list_ex (beyond_i_max 5) (acquired (example_steps ! 1))
   \<and> Hw (SetStopIMax True 5) \<in> set (trace running_window)"
proof -
  have p: "driver_polls 5 None example_steps = [DriverRunning (example_obs2 0 0 0), DriverStopped]"
    by (simp add: example_steps_def example_obs2_def beyond_i_max_def)
  have "\<forall>ob\<in>set [example_obs2 0 0 0]. tick_ready running_window ob"
    by (simp add: running_window_facts)
  from running_rows [OF this, of exact_arith] obtain w' where
    "run_loop exact_arith [DriverRunning (example_obs2 0 0 0), DriverStopped] running_window
       = Some (None, w')"
    "data_rows (file_text example_outfile (trace w') [])
       = [tick_record running_window (example_obs2 0 0 0)]"
    by auto
  then have "map_option (recorded_currents example_outfile \<circ> snd)
        (run_loop exact_arith (driver_polls 5 None example_steps) running_window)
       = Some [Some 0]"
    by (simp add: p recorded_currents_def running_window_facts current_of_record_line)
  moreover have "list_ex (beyond_i_max 5) (acquired (example_steps ! 1))"
    by (simp add: example_steps_def beyond_i_max_def)
  ultimately show ?thesis
    using p running_window_limit by simp
qed

subsection \<open>The flushes\<close>

text \<open>
  C6, as the code has it. The thread sets the time of the last flush to -100 before
  the loop. A pass that goes through flushes the output file exactly when the
  difference that the program computes, elapsed time of the record minus time of the
  last flush, is greater than 30; then the elapsed time becomes the time of the last
  flush, and everything written so far has left the program's buffer.
\<close>

theorem flush_rule:
  assumes "merge_tick ar ob w = (None, w')"
  shows "(\<exists>pt f lf. last_data_point ob = Some pt \<and> outfile w = Some f
            \<and> last_file_flush w = Some lf
            \<and> flush_count f w'
                = flush_count f w + (if fl_sub ar (pt_time pt) lf > 30 then 1 else 0)
            \<and> last_file_flush w'
                = Some (if fl_sub ar (pt_time pt) lf > 30 then pt_time pt else lf)
            \<and> (fl_sub ar (pt_time pt) lf > 30
                 \<longrightarrow> flushed_text f (trace w') [] [] = file_text f (trace w') []))
         \<and> (\<forall>w0 w1. run_measurement_setup w0 = (None, w1) \<longrightarrow> last_file_flush w1 = Some (- 100))"
proof -
  from merge_tick_NoneD [OF assms] obtain pt f lf where
    h: "last_data_point ob = Some pt" "outfile w = Some f" "last_file_flush w = Some lf"
    by blast
  note fl = merge_tick_flush [OF assms h]
  have "last_data_point ob = Some pt \<and> outfile w = Some f
            \<and> last_file_flush w = Some lf
            \<and> flush_count f w'
                = flush_count f w + (if fl_sub ar (pt_time pt) lf > 30 then 1 else 0)
            \<and> last_file_flush w'
                = Some (if fl_sub ar (pt_time pt) lf > 30 then pt_time pt else lf)
            \<and> (fl_sub ar (pt_time pt) lf > 30
                 \<longrightarrow> flushed_text f (trace w') [] [] = file_text f (trace w') [])"
    using h fl(1,2,4) by auto
  then have "\<exists>pt f lf. last_data_point ob = Some pt \<and> outfile w = Some f
            \<and> last_file_flush w = Some lf
            \<and> flush_count f w'
                = flush_count f w + (if fl_sub ar (pt_time pt) lf > 30 then 1 else 0)
            \<and> last_file_flush w'
                = Some (if fl_sub ar (pt_time pt) lf > 30 then pt_time pt else lf)
            \<and> (fl_sub ar (pt_time pt) lf > 30
                 \<longrightarrow> flushed_text f (trace w') [] [] = file_text f (trace w') [])"
    by blast
  moreover have "\<forall>w0 w1. run_measurement_setup w0 = (None, w1) \<longrightarrow> last_file_flush w1 = Some (- 100)"
    using run_measurement_setup_ok(1) by blast
  ultimately show ?thesis by (rule conjI)
qed

theorem flush_rule_witness:
  "\<exists>w'. merge_tick exact_arith (example_obs2 0 0 0) running_window = (None, w')
      \<and> flush_count example_outfile w' = flush_count example_outfile running_window + 1
      \<and> last_file_flush w' = Some 0
      \<and> flushed_text example_outfile (trace w') [] [] = file_text example_outfile (trace w') []
      \<and> last_file_flush running_window = Some (- 100)"
proof -
  from running_first_pass [of exact_arith 0 0 0] obtain w' where
    m: "merge_tick exact_arith (example_obs2 0 0 0) running_window = (None, w')"
    by blast
  from flush_rule [OF m] obtain pt f lf where
    "last_data_point (example_obs2 0 0 0) = Some pt" "outfile running_window = Some f"
    "last_file_flush running_window = Some lf"
    "flush_count f w'
       = flush_count f running_window + (if fl_sub exact_arith (pt_time pt) lf > 30 then 1 else 0)"
    "last_file_flush w'
       = Some (if fl_sub exact_arith (pt_time pt) lf > 30 then pt_time pt else lf)"
    "fl_sub exact_arith (pt_time pt) lf > 30
       \<longrightarrow> flushed_text f (trace w') [] [] = file_text f (trace w') []"
    by blast
  with m show ?thesis
    by (auto simp: running_window_facts example_obs2_def exact_arith_def)
qed

text \<open>
  C6 as stated fails at the boundary. The first pass of the example measurement, at
  elapsed time 0, flushes. The next pass, at elapsed time 30, has advanced 30 s since
  that flush (the subtraction of these two doubles is exact) and does not flush: the
  two passes have flushed the file once, and the time of the last flush is still 0.
\<close>

theorem flush_at_30_counterexample:
  "map_option (flush_count example_outfile \<circ> snd)
     (run_loop exact_arith [DriverRunning (example_obs2 0 0 0), DriverRunning (example_obs2 30 0 0),
                DriverStopped] running_window)
     = Some (flush_count example_outfile running_window + 1)
   \<and> map_option (last_file_flush \<circ> snd)
     (run_loop exact_arith [DriverRunning (example_obs2 0 0 0), DriverRunning (example_obs2 30 0 0),
                DriverStopped] running_window) = Some (Some 0)
   \<and> map_option (recorded_times example_outfile \<circ> snd)
     (run_loop exact_arith [DriverRunning (example_obs2 0 0 0), DriverRunning (example_obs2 30 0 0),
                DriverStopped] running_window) = Some [Some 0, Some 30]"
proof -
  from running_first_pass [of exact_arith 0 0 0] obtain w1 where
    m1: "merge_tick exact_arith (example_obs2 0 0 0) running_window = (None, w1)"
    by blast
  have p1: "last_data_point (example_obs2 0 0 0) = Some \<lparr>pt_time = 0, pt_vf = 0, pt_im = 0\<rparr>"
    and p2: "last_data_point (example_obs2 30 0 0) = Some \<lparr>pt_time = 30, pt_vf = 0, pt_im = 0\<rparr>"
    by (simp_all add: example_obs2_def)
  note f1 = merge_tick_flush(1-3) [OF m1 p1 running_window_facts(3,4)]
  have w1: "last_file_flush w1 = Some 0"
    "flush_count example_outfile w1 = flush_count example_outfile running_window + 1"
    "outfile w1 = Some example_outfile"
    using f1 by (simp_all add: exact_arith_def)
  have "\<forall>ob\<in>set [example_obs2 0 0 0, example_obs2 30 0 0]. tick_ready running_window ob"
    by (simp add: running_window_facts)
  from running_rows [OF this, of exact_arith] obtain w2 where
    r: "run_loop exact_arith [DriverRunning (example_obs2 0 0 0),
                              DriverRunning (example_obs2 30 0 0), DriverStopped] running_window
          = Some (None, w2)"
    and rows: "data_rows (file_text example_outfile (trace w2) [])
       = [tick_record running_window (example_obs2 0 0 0),
          tick_record running_window (example_obs2 30 0 0)]"
    by auto
  from r m1 have m2: "merge_tick exact_arith (example_obs2 30 0 0) w1 = (None, w2)"
    by (auto split: prod.splits option.splits)
  note f2 = merge_tick_flush(1,2) [OF m2 p2 w1(3) w1(1)]
  have "last_file_flush w2 = Some 0"
    "flush_count example_outfile w2 = flush_count example_outfile running_window + 1"
    using f2 w1(2) by (simp_all add: exact_arith_def)
  with r rows show ?thesis
    by (simp add: recorded_times_def running_window_facts elapsed_of_record_line)
qed

end
